theory Spec2Isabelle
  imports Main "HOL-Library.Sublist"
begin

section \<open>Values and exceptions\<close>

text \<open>
  The values \<open>json.load\<close> and \<open>json.loads\<close> produce, and the values the daemon puts into the
  bodies it posts. An object is an association list; a number is an integer (a float takes
  the same branch as an integer in every function below).
\<close>

datatype json =
    JNull
  | JBool bool
  | JNum int
  | JStr string
  | JArr "json list"
  | JObj "(string \<times> json) list"

text \<open>
  The Python exceptions the modelled code can raise, by class; \<open>ValueError\<close> stands for its
  subclasses as well (\<open>UnicodeDecodeError\<close>, \<open>json.JSONDecodeError\<close>). \<open>is_oserror\<close> tells the
  subclasses of \<open>OSError\<close>, which \<open>LinuxPatcher._processes_data\<close> catches.
\<close>

datatype error =
    FileNotFoundError
  | IsADirectoryError
  | NotADirectoryError
  | SameFileError
  | KeyError
  | TypeError
  | ValueError
  | KeyboardInterrupt
  | OSError string

fun is_oserror :: "error \<Rightarrow> bool" where
  "is_oserror FileNotFoundError = True"
| "is_oserror IsADirectoryError = True"
| "is_oserror NotADirectoryError = True"
| "is_oserror SameFileError = True"
| "is_oserror (OSError s) = True"
| "is_oserror KeyError = False"
| "is_oserror TypeError = False"
| "is_oserror ValueError = False"
| "is_oserror KeyboardInterrupt = False"

text \<open>
  Library functions the code calls and the model takes as given: \<open>int\<close> on a header value;
  the decoding of bytes as UTF-8 (\<open>bytes.decode("utf-8")\<close>, and the codec of a file opened with
  \<open>encoding="utf8"\<close>) and in the encoding of the locale (the codec of a file opened with no
  \<open>encoding\<close>); the parsing of a JSON text (\<open>json.loads\<close>), each \<open>None\<close> where it raises
  \<open>ValueError\<close>; and how a call into a cloud provider's SDK with a token ends.
\<close>

record pylib =
  to_int :: "string \<Rightarrow> int option"
  decode_utf8 :: "string \<Rightarrow> string option"
  decode_locale :: "string \<Rightarrow> string option"
  json_loads :: "string \<Rightarrow> json option"
  cloud :: "string \<Rightarrow> json \<Rightarrow> error option"

text \<open>\<open>operator.getitem(obj, key)\<close> with a string key, and \<open>reduce(operator.getitem, keys, data)\<close>.\<close>

fun getitem :: "json \<Rightarrow> string \<Rightarrow> error + json" where
  "getitem (JObj kvs) k = (case map_of kvs k of None \<Rightarrow> Inl KeyError | Some v \<Rightarrow> Inr v)"
| "getitem j k = Inl TypeError"

fun reduce_getitem :: "string list \<Rightarrow> json \<Rightarrow> error + json" where
  "reduce_getitem [] data = Inr data"
| "reduce_getitem (k # ks) data =
     (case getitem data k of Inl e \<Rightarrow> Inl e | Inr v \<Rightarrow> reduce_getitem ks v)"

section \<open>Paths: \<open>os.path\<close> on a POSIX system\<close>

text \<open>
  \<open>posixpath.join(a, b)\<close>: an absolute \<open>b\<close> replaces \<open>a\<close>; otherwise \<open>b\<close> is appended,
  with a separator unless \<open>a\<close> is empty or already ends with one.
\<close>

definition join :: "string \<Rightarrow> string \<Rightarrow> string" where
  "join a b =
     (if take 1 b = ''/'' then b
      else if a = [] then a @ b
      else if last a = CHR ''/'' then a @ b
      else a @ ''/'' @ b)"

text \<open>
  \<open>posixpath.dirname(p)\<close>: the part up to and including the last separator, with its
  trailing separators stripped unless it consists of separators only.
\<close>

definition dirname :: "string \<Rightarrow> string" where
  "dirname p =
     (let head = rev (dropWhile (\<lambda>c. c \<noteq> CHR ''/'') (rev p))
      in if head = [] then head
         else if list_all (\<lambda>c. c = CHR ''/'') head then head
         else rev (dropWhile (\<lambda>c. c = CHR ''/'') (rev head)))"

definition basename :: "string \<Rightarrow> string" where
  "basename p = rev (takeWhile (\<lambda>c. c \<noteq> CHR ''/'') (rev p))"

section \<open>The file system\<close>

text \<open>
  The file system as the program sees it through \<open>os\<close> and \<open>shutil\<close>: what stands at a
  path is a regular file with its bytes, or a directory with the names \<open>os.listdir\<close>
  reports for it, in the order it reports them. Paths are the strings the program passes:
  a disk holds its entries under the very strings the program forms, and no path is
  normalised or resolved against the working directory. The program creates, renames and
  removes regular files only. Permissions are not modelled: what stands at a path can be
  opened, listed, renamed and removed.
\<close>

datatype node = File string | Dir "string list"

type_synonym filesystem = "string \<Rightarrow> node option"

definition path_exists :: "filesystem \<Rightarrow> string \<Rightarrow> bool" where
  "path_exists fs p = (case fs p of None \<Rightarrow> False | Some n \<Rightarrow> True)"

definition isfile :: "filesystem \<Rightarrow> string \<Rightarrow> bool" where
  "isfile fs p = (case fs p of Some (File c) \<Rightarrow> True | _ \<Rightarrow> False)"

definition isdir :: "filesystem \<Rightarrow> string \<Rightarrow> bool" where
  "isdir fs p = (case fs p of Some (Dir ns) \<Rightarrow> True | _ \<Rightarrow> False)"

definition listdir :: "filesystem \<Rightarrow> string \<Rightarrow> error + string list" where
  "listdir fs p =
     (case fs p of
        None \<Rightarrow> Inl FileNotFoundError
      | Some (File c) \<Rightarrow> Inl NotADirectoryError
      | Some (Dir ns) \<Rightarrow> Inr ns)"

text \<open>
  What text mode does to the decoded text with the default \<open>newline=None\<close>: a carriage
  return followed by a line feed, and a carriage return alone, are read as one line feed.
\<close>

fun universal_newlines :: "string \<Rightarrow> string" where
  "universal_newlines [] = []"
| "universal_newlines [c] = (if c = CHR 0x0D then [CHR 0x0A] else [c])"
| "universal_newlines (c # d # cs) =
     (if c = CHR 0x0D then
        (if d = CHR 0x0A then CHR 0x0A # universal_newlines cs
         else CHR 0x0A # universal_newlines (d # cs))
      else c # universal_newlines (d # cs))"

text \<open>
  \<open>open(p, "r", encoding=...)\<close> followed by \<open>read()\<close>, with the codec as \<open>decode\<close>: opening
  fails on a missing path and on a directory; reading raises \<open>UnicodeDecodeError\<close> (a
  \<open>ValueError\<close>) where the bytes of the file do not decode, and otherwise returns the decoded
  text with its line endings translated.
\<close>

definition read_text :: "(string \<Rightarrow> string option) \<Rightarrow> filesystem \<Rightarrow> string \<Rightarrow> error + string" where
  "read_text decode fs p =
     (case fs p of
        None \<Rightarrow> Inl FileNotFoundError
      | Some (Dir ns) \<Rightarrow> Inl IsADirectoryError
      | Some (File bytes) \<Rightarrow>
          (case decode bytes of
             None \<Rightarrow> Inl ValueError
           | Some text \<Rightarrow> Inr (universal_newlines text)))"

text \<open>
  A file that goes or comes changes what its directory reports. A directory \<open>q\<close> reports a
  name \<open>n\<close> for what stands at \<open>join q n\<close>, which is how the program forms the path of an
  entry. \<open>drop_entry p\<close> takes the names of the path \<open>p\<close> out of the listings; \<open>add_entry p\<close>
  puts the last component of \<open>p\<close> into the listing of a directory it stands in, unless it
  is there already. A new name goes after the names already there: the order in which
  \<open>os.listdir\<close> reports names is the file system's choice, and this is the model's.
\<close>

definition drop_entry :: "string \<Rightarrow> filesystem \<Rightarrow> filesystem" where
  "drop_entry p fs =
     (\<lambda>q. case fs q of
            Some (Dir ns) \<Rightarrow> Some (Dir (filter (\<lambda>n. join q n \<noteq> p) ns))
          | other \<Rightarrow> other)"

definition add_entry :: "string \<Rightarrow> filesystem \<Rightarrow> filesystem" where
  "add_entry p fs =
     (\<lambda>q. case fs q of
            Some (Dir ns) \<Rightarrow>
              Some (Dir (if basename p \<noteq> [] \<and> join q (basename p) = p \<and> basename p \<notin> set ns
                         then ns @ [basename p] else ns))
          | other \<Rightarrow> other)"

text \<open>A disk with the regular file at a path removed, and with a regular file put at a path.\<close>

definition remove_file :: "string \<Rightarrow> filesystem \<Rightarrow> filesystem" where
  "remove_file p fs = drop_entry p (fs(p := None))"

definition put_file :: "string \<Rightarrow> string \<Rightarrow> filesystem \<Rightarrow> filesystem" where
  "put_file p c fs = add_entry p (fs(p \<mapsto> File c))"

text \<open>\<open>os.unlink(p)\<close>: it removes a regular file, and fails on a missing path and on a directory.\<close>

definition unlink :: "filesystem \<Rightarrow> string \<Rightarrow> error + filesystem" where
  "unlink fs p =
     (case fs p of
        None \<Rightarrow> Inl FileNotFoundError
      | Some (Dir ns) \<Rightarrow> Inl IsADirectoryError
      | Some (File c) \<Rightarrow> Inr (remove_file p fs))"

text \<open>
  \<open>os.rename(src, dst)\<close> of a regular file: it replaces a regular file at \<open>dst\<close> and fails on
  a directory there. Both call sites rename a path they have just found to be a regular
  file; for a directory at \<open>src\<close> the model reports an error and moves nothing.
\<close>

definition rename :: "filesystem \<Rightarrow> string \<Rightarrow> string \<Rightarrow> error + filesystem" where
  "rename fs src dst =
     (case fs src of
        None \<Rightarrow> Inl FileNotFoundError
      | Some (Dir ns) \<Rightarrow> Inl (OSError ''rename of a directory'')
      | Some (File c) \<Rightarrow>
          (case fs dst of
             Some (Dir ms) \<Rightarrow> Inl IsADirectoryError
           | _ \<Rightarrow> Inr (put_file dst c (remove_file src fs))))"

text \<open>
  \<open>shutil.copy(src, dst)\<close>: into the directory \<open>dst\<close> under the source's base name when
  \<open>dst\<close> is a directory, onto \<open>dst\<close> otherwise; copying a file onto itself is refused.
\<close>

definition copy :: "filesystem \<Rightarrow> string \<Rightarrow> string \<Rightarrow> error + filesystem" where
  "copy fs src dst =
     (let target = (if isdir fs dst then join dst (basename src) else dst)
      in if path_exists fs src \<and> target = src then Inl SameFileError
         else case fs src of
                None \<Rightarrow> Inl FileNotFoundError
              | Some (Dir ns) \<Rightarrow> Inl IsADirectoryError
              | Some (File c) \<Rightarrow>
                  if isdir fs target then Inl IsADirectoryError
                  else Inr (put_file target c fs))"

section \<open>The daemon's state\<close>

text \<open>
  The operating system as the daemon reads and changes it (\<open>disk\<close>, \<open>cwd\<close>, \<open>environ\<close>), the
  messages handed to \<open>C2Communication.send\<close> so far, each with its route (\<open>sent\<close>), and the
  attributes of the patcher and the token stealer (\<open>_m_data\<close>, \<open>_dir_circuits\<close>, \<open>_d_path\<close>).
  A send is recorded and returns: the transport is taken to be up. \<open>restore_calls\<close> is not
  program state: it records the arguments of the calls of \<open>_remove_patch\<close>, in call order, so
  that which roots a run has tried to restore can be stated.
\<close>

record state =
  disk :: filesystem
  cwd :: string
  environ :: "string \<Rightarrow> string option"
  sent :: "(string \<times> json) list"
  m_data :: "string list"
  dir_circuits :: string
  d_path :: string
  restore_calls :: "string list"

text \<open>
  A call returns the state it leaves behind together with \<open>None\<close> when it returned and
  \<open>Some e\<close> when it raised \<open>e\<close>.
\<close>

type_synonym outcome = "error option \<times> state"

definition send :: "state \<Rightarrow> string \<Rightarrow> json \<Rightarrow> state" where
  "send st api data = st\<lparr>sent := sent st @ [(api, data)]\<rparr>"

section \<open>The patcher (\<open>modules/patcher.py\<close>)\<close>

text \<open>
  \<open>PythonPackagePatcher._patch_qiskit\<close>. The two early returns, the restore branch (not
  guarded by a \<open>try\<close>), and the patch branch, whose \<open>except Exception\<close> turns a failed
  rename or copy into a log line.
\<close>

definition patch_qiskit :: "state \<Rightarrow> string \<Rightarrow> bool \<Rightarrow> outcome" where
  "patch_qiskit st qiskit_location restore =
     (let original_location = join qiskit_location ''execute_function.py'';
          bkp_location = join qiskit_location ''execute_function.py.org'';
          payload = join (cwd st) ''execute_function.py''
      in if \<not> isfile (disk st) original_location then (None, st)
         else if isfile (disk st) bkp_location then
           (if restore then
              (case unlink (disk st) original_location of
                 Inl e \<Rightarrow> (Some e, st)
               | Inr fs1 \<Rightarrow>
                   (case rename fs1 bkp_location original_location of
                      Inl e \<Rightarrow> (Some e, st\<lparr>disk := fs1\<rparr>)
                    | Inr fs2 \<Rightarrow> (None, st\<lparr>disk := fs2\<rparr>)))
            else (None, st))
         else
           (case rename (disk st) original_location bkp_location of
              Inl e \<Rightarrow> (None, st)
            | Inr fs1 \<Rightarrow>
                (case copy fs1 payload original_location of
                   Inl e \<Rightarrow> (None, st\<lparr>disk := fs1\<rparr>)
                 | Inr fs2 \<Rightarrow> (None, st\<lparr>disk := fs2\<rparr>))))"

text \<open>
  \<open>_site_package\<close>. Its \<open>while\<close> loop climbs with \<open>dirname\<close> until \<open>path/lib\<close> exists; nothing
  bounds it, so it is a partial function: \<open>None\<close> is the loop that never ends.
\<close>

partial_function (option) climb :: "filesystem \<Rightarrow> string \<Rightarrow> string option" where
  "climb fs path =
     (if path_exists fs (join path ''lib'') then Some path else climb fs (dirname path))"

definition site_package :: "filesystem \<Rightarrow> string \<Rightarrow> (error + string list) option" where
  "site_package fs path =
     (case climb fs path of
        None \<Rightarrow> None
      | Some a \<Rightarrow>
          Some (let out = [join (join (join a ''lib'') ''site-packages'') ''qiskit''];
                    lib = join a ''lib''
                in case listdir fs lib of
                     Inl e \<Rightarrow> Inl e
                   | Inr ds \<Rightarrow>
                       Inr (out @ map (\<lambda>d. join (join (join lib d) ''site-packages'') ''qiskit'') ds)))"

text \<open>The loop \<open>for p in paths: self._patch_qiskit(qiskit_location=p, restore=...)\<close>.\<close>

fun patch_all :: "state \<Rightarrow> string list \<Rightarrow> bool \<Rightarrow> outcome" where
  "patch_all st [] restore = (None, st)"
| "patch_all st (p # ps) restore =
     (case patch_qiskit st p restore of
        (Some e, st1) \<Rightarrow> (Some e, st1)
      | (None, st1) \<Rightarrow> patch_all st1 ps restore)"

text \<open>\<open>_add_patch\<close> and \<open>_remove_patch\<close>; \<open>None\<close> where \<open>_site_package\<close> does not return.\<close>

definition add_patch :: "state \<Rightarrow> string \<Rightarrow> outcome option" where
  "add_patch st path =
     (if path \<in> set (m_data st) then Some (None, st)
      else let st1 = st\<lparr>m_data := m_data st @ [path]\<rparr>
           in case site_package (disk st1) path of
                None \<Rightarrow> None
              | Some (Inl e) \<Rightarrow> Some (Some e, st1)
              | Some (Inr paths) \<Rightarrow> Some (patch_all st1 paths False))"

definition remove_patch :: "state \<Rightarrow> string \<Rightarrow> outcome option" where
  "remove_patch st0 path =
     (let st = st0\<lparr>restore_calls := restore_calls st0 @ [path]\<rparr>
      in if path \<notin> set (m_data st) then Some (None, st)
         else let st1 = st\<lparr>m_data := remove1 path (m_data st)\<rparr>
              in case site_package (disk st1) path of
                   None \<Rightarrow> None
                 | Some (Inl e) \<Rightarrow> Some (Some e, st1)
                 | Some (Inr paths) \<Rightarrow> Some (patch_all st1 paths True))"

text \<open>\<open>restore_state\<close>: \<open>_remove_patch\<close> for each element of a copy of \<open>_m_data\<close>.\<close>

fun remove_each :: "string list \<Rightarrow> state \<Rightarrow> outcome option" where
  "remove_each [] st = Some (None, st)"
| "remove_each (d # ds) st =
     (case remove_patch st d of
        None \<Rightarrow> None
      | Some (Some e, st1) \<Rightarrow> Some (Some e, st1)
      | Some (None, st1) \<Rightarrow> remove_each ds st1)"

definition restore_state :: "state \<Rightarrow> outcome option" where
  "restore_state st = remove_each (m_data st) st"

text \<open>
  \<open>_report_circuits\<close>: the reading and sending loop, which collects \<open>to_remove\<close>, and the
  unlinking loop after it. Each file is opened with \<open>encoding="utf8"\<close>.
\<close>

fun report_loop :: "pylib \<Rightarrow> state \<Rightarrow> string list \<Rightarrow> string list \<Rightarrow> error option \<times> state \<times> string list" where
  "report_loop lib st [] to_remove = (None, st, to_remove)"
| "report_loop lib st (f_name # rest) to_remove =
     (let f_path = join (dir_circuits st) f_name
      in case read_text (decode_utf8 lib) (disk st) f_path of
           Inl e \<Rightarrow> (Some e, st, to_remove)
         | Inr content \<Rightarrow>
             report_loop lib (send st ''/circuit'' (JObj [(''circuit'', JStr content)])) rest
               (to_remove @ [f_path]))"

fun unlink_all :: "state \<Rightarrow> string list \<Rightarrow> outcome" where
  "unlink_all st [] = (None, st)"
| "unlink_all st (f_path # rest) =
     (case unlink (disk st) f_path of
        Inl e \<Rightarrow> (Some e, st)
      | Inr fs1 \<Rightarrow> unlink_all (st\<lparr>disk := fs1\<rparr>) rest)"

definition report_circuits :: "pylib \<Rightarrow> state \<Rightarrow> outcome" where
  "report_circuits lib st =
     (if \<not> isdir (disk st) (dir_circuits st) then (None, st)
      else case listdir (disk st) (dir_circuits st) of
             Inl e \<Rightarrow> (Some e, st)
           | Inr names \<Rightarrow>
               (case report_loop lib st names [] of
                  (Some e, st1, to_remove) \<Rightarrow> (Some e, st1)
                | (None, st1, to_remove) \<Rightarrow> unlink_all st1 to_remove))"

text \<open>
  \<open>LinuxPatcher._processes_data\<close>. A process is what opening and reading
  \<open>/proc/<pid>/environ\<close> gives: the exception it raises (an \<open>OSError\<close> where the file cannot
  be opened, a \<open>ValueError\<close> where it does not decode), or its entries (the text split at
  NUL). The \<open>except OSError\<close> around the body also catches what \<open>_add_patch\<close> raises.
\<close>

fun scan_environ :: "state \<Rightarrow> string list \<Rightarrow> outcome option" where
  "scan_environ st [] = Some (None, st)"
| "scan_environ st (e # es) =
     (if take (length ''VIRTUAL_ENV'') e = ''VIRTUAL_ENV''
      then add_patch st (drop (length ''VIRTUAL_ENV='') e)
      else if take (length ''PATH='') e = ''PATH=''
      then (case add_patch st (dirname (takeWhile (\<lambda>c. c \<noteq> CHR '':'') (drop (length ''PATH='') e))) of
              None \<Rightarrow> None
            | Some (Some x, st1) \<Rightarrow> Some (Some x, st1)
            | Some (None, st1) \<Rightarrow> scan_environ st1 es)
      else scan_environ st es)"

fun processes_data :: "state \<Rightarrow> (error + string list) list \<Rightarrow> outcome option" where
  "processes_data st [] = Some (None, st)"
| "processes_data st (Inl e # ps) =
     (if is_oserror e then processes_data st ps else Some (Some e, st))"
| "processes_data st (Inr entries # ps) =
     (case scan_environ st entries of
        None \<Rightarrow> None
      | Some (None, st1) \<Rightarrow> processes_data st1 ps
      | Some (Some e, st1) \<Rightarrow>
          if is_oserror e then processes_data st1 ps else Some (Some e, st1))"

text \<open>
  \<open>PythonPackagePatcher.run\<close>: 180 iterations. What an iteration meets comes from outside:
  the python processes then running, or a keyboard interrupt (taken at the start of the
  iteration). When the list of ticks runs out no python process is running.
\<close>

datatype tick = Interrupt | Processes "(error + string list) list"

fun run_loop :: "pylib \<Rightarrow> nat \<Rightarrow> tick list \<Rightarrow> state \<Rightarrow> outcome option" where
  "run_loop lib 0 ticks st = Some (None, st)"
| "run_loop lib (Suc n) (Interrupt # ticks) st = Some (Some KeyboardInterrupt, st)"
| "run_loop lib (Suc n) ticks st =
     (case processes_data st (case ticks of Processes ps # rest \<Rightarrow> ps | _ \<Rightarrow> []) of
        None \<Rightarrow> None
      | Some (Some e, st1) \<Rightarrow> Some (Some e, st1)
      | Some (None, st1) \<Rightarrow>
          (case report_circuits lib st1 of
             (Some e, st2) \<Rightarrow> Some (Some e, st2)
           | (None, st2) \<Rightarrow> run_loop lib n (tl ticks) st2))"

definition patcher_run :: "pylib \<Rightarrow> tick list \<Rightarrow> state \<Rightarrow> outcome option" where
  "patcher_run lib ticks st = run_loop lib 180 ticks st"

section \<open>The token stealer (\<open>modules/token_stealer.py\<close>)\<close>

text \<open>\<open>self._data\<close> and \<open>self._env\<close>, in insertion order.\<close>

definition data_entries :: "(string \<times> string \<times> string list) list" where
  "data_entries =
     [(''IBM'', join ''.qiskit'' ''qiskit-ibm.json'', [''default-ibm-quantum'', ''token'']),
      (''QI'', join ''.quantuminspire'' ''qirc'', [''token''])]"

definition env_entries :: "(string \<times> string list) list" where
  "env_entries = [(''IonQ'', [''IONQ_API_KEY'', ''IONQ_API_TOKEN'', ''QISKIT_IONQ_API_TOKEN''])]"

definition token_message :: "string \<Rightarrow> json \<Rightarrow> string \<times> json" where
  "token_message key token = (''/token'', JObj [(''provider'', JStr key), (''token'', token)])"

text \<open>
  The body of the inner loop of \<open>run\<close>, for one user and one entry of \<open>self._data\<close>. The
  file is opened with no \<open>encoding\<close>, and \<open>json.load\<close> parses the text read from it.
\<close>

definition steal_file :: "pylib \<Rightarrow> state \<Rightarrow> string \<Rightarrow> string \<times> string \<times> string list \<Rightarrow> outcome" where
  "steal_file lib st user entry =
     (case entry of (key, path, keys) \<Rightarrow>
        let f_path = join (join (d_path st) user) path
        in if \<not> isfile (disk st) f_path then (None, st)
           else case read_text (decode_locale lib) (disk st) f_path of
                  Inl e \<Rightarrow> (Some e, st)
                | Inr text \<Rightarrow>
                    (case json_loads lib text of
                       None \<Rightarrow> (Some ValueError, st)
                     | Some data \<Rightarrow>
                         (case reduce_getitem keys data of
                            Inl e \<Rightarrow> (Some e, st)
                          | Inr token \<Rightarrow>
                              (None, st\<lparr>sent := sent st @ [token_message key token]\<rparr>))))"

fun steal_user :: "pylib \<Rightarrow> state \<Rightarrow> string \<Rightarrow> (string \<times> string \<times> string list) list \<Rightarrow> outcome" where
  "steal_user lib st user [] = (None, st)"
| "steal_user lib st user (entry # entries) =
     (case steal_file lib st user entry of
        (Some e, st1) \<Rightarrow> (Some e, st1)
      | (None, st1) \<Rightarrow> steal_user lib st1 user entries)"

fun steal_users :: "pylib \<Rightarrow> state \<Rightarrow> string list \<Rightarrow> outcome" where
  "steal_users lib st [] = (None, st)"
| "steal_users lib st (user # users) =
     (case steal_user lib st user data_entries of
        (Some e, st1) \<Rightarrow> (Some e, st1)
      | (None, st1) \<Rightarrow> steal_users lib st1 users)"

text \<open>The environment loops: \<open>for tenv in value\<close> has no \<open>break\<close>.\<close>

fun steal_vars :: "state \<Rightarrow> string \<Rightarrow> string list \<Rightarrow> state" where
  "steal_vars st key [] = st"
| "steal_vars st key (tenv # rest) =
     (case environ st tenv of
        None \<Rightarrow> steal_vars st key rest
      | Some token \<Rightarrow>
          if token = [] then steal_vars st key rest
          else steal_vars (st\<lparr>sent := sent st @ [token_message key (JStr token)]\<rparr>) key rest)"

fun steal_env :: "state \<Rightarrow> (string \<times> string list) list \<Rightarrow> state" where
  "steal_env st [] = st"
| "steal_env st ((key, names) # rest) = steal_env (steal_vars st key names) rest"

definition token_stealer_run :: "pylib \<Rightarrow> state \<Rightarrow> outcome" where
  "token_stealer_run lib st =
     (case listdir (disk st) (d_path st) of
        Inl e \<Rightarrow> (Some e, st)
      | Inr users \<Rightarrow>
          (case steal_users lib st users of
             (Some e, st1) \<Rightarrow> (Some e, st1)
           | (None, st1) \<Rightarrow> (None, steal_env st1 env_entries)))"

section \<open>The daemon's main block (\<open>quantum_daemon.py\<close>)\<close>

text \<open>
  The \<open>except KeyboardInterrupt\<close> and \<open>finally\<close> clauses, given how the \<open>try\<close> body ended and
  the state it left: \<open>restore_state\<close> runs; what it raises replaces what the body raised;
  otherwise a keyboard interrupt has been handled and any other exception goes on.
\<close>

definition finally_restore :: "error option \<Rightarrow> state \<Rightarrow> outcome option" where
  "finally_restore body st =
     (case restore_state st of
        None \<Rightarrow> None
      | Some (Some e, st1) \<Rightarrow> Some (Some e, st1)
      | Some (None, st1) \<Rightarrow>
          Some (if body = Some KeyboardInterrupt then None else body, st1))"

definition daemon :: "pylib \<Rightarrow> tick list \<Rightarrow> state \<Rightarrow> outcome option" where
  "daemon lib ticks st =
     (case (case token_stealer_run lib st of
              (Some e, st1) \<Rightarrow> Some (Some e, st1)
            | (None, st1) \<Rightarrow> patcher_run lib ticks st1) of
        None \<Rightarrow> None
      | Some (body, st2) \<Rightarrow> finally_restore body st2)"

section \<open>The C2 receiver (\<open>quantum_c2.py\<close>)\<close>

text \<open>
  A request as the handler reads it: the path, the \<open>Content-Length\<close> header if present, and
  the bytes that follow the headers. What the handler does is a trace: the parts of the
  response it writes and the job-enumeration routines it enters, in order.
\<close>

record request =
  req_path :: string
  content_length :: "string option"
  body :: string

datatype event =
    SendResponse nat
  | EndHeaders
  | Write string
  | JobsIBM json
  | JobsQI json
  | JobsIonQ json

type_synonym handled = "error option \<times> event list"

definition do_GET :: "event list \<Rightarrow> handled" where
  "do_GET tr = (None, tr @ [SendResponse 200, EndHeaders, Write ''Hello, world!''])"

definition jobs_ibm :: "pylib \<Rightarrow> event list \<Rightarrow> json \<Rightarrow> handled" where
  "jobs_ibm lib tr token = (cloud lib ''IBM'' token, tr @ [JobsIBM token])"

definition jobs_qi :: "pylib \<Rightarrow> event list \<Rightarrow> json \<Rightarrow> handled" where
  "jobs_qi lib tr token = (None, tr @ [JobsQI token])"

definition jobs_ionq :: "pylib \<Rightarrow> event list \<Rightarrow> json \<Rightarrow> handled" where
  "jobs_ionq lib tr token = (cloud lib ''IonQ'' token, tr @ [JobsIonQ token])"

text \<open>
  \<open>C2Server._jobs\<close>: \<open>data["provider"]\<close>, then the lookup in the dictionary of routines (a list
  or an object cannot be hashed; any other key that is not one of the three names is
  missing), then \<open>data["token"]\<close>, then the call.
\<close>

definition jobs :: "pylib \<Rightarrow> event list \<Rightarrow> json \<Rightarrow> handled" where
  "jobs lib tr data =
     (case getitem data ''provider'' of
        Inl e \<Rightarrow> (Some e, tr)
      | Inr provider \<Rightarrow>
          (case (case provider of
                   JStr s \<Rightarrow>
                     if s = ''IBM'' then Inr jobs_ibm
                     else if s = ''QI'' then Inr jobs_qi
                     else if s = ''IonQ'' then Inr jobs_ionq
                     else Inl KeyError
                 | JArr xs \<Rightarrow> Inl TypeError
                 | JObj kvs \<Rightarrow> Inl TypeError
                 | _ \<Rightarrow> Inl KeyError) of
             Inl e \<Rightarrow> (Some e, tr)
           | Inr routine \<Rightarrow>
               (case getitem data ''token'' of
                  Inl e \<Rightarrow> (Some e, tr)
                | Inr token \<Rightarrow> routine lib tr token)))"

text \<open>\<open>rfile.read(n)\<close>: \<open>n\<close> bytes, or all of them for a negative \<open>n\<close>.\<close>

definition rfile_read :: "string \<Rightarrow> int \<Rightarrow> string" where
  "rfile_read bytes n = (if n < 0 then bytes else take (nat n) bytes)"

definition do_POST :: "pylib \<Rightarrow> event list \<Rightarrow> request \<Rightarrow> handled" where
  "do_POST lib tr req =
     (case content_length req of
        None \<Rightarrow> (Some TypeError, tr)
      | Some header \<Rightarrow>
          (case to_int lib header of
             None \<Rightarrow> (Some ValueError, tr)
           | Some content_len \<Rightarrow>
               (case decode_utf8 lib (rfile_read (body req) content_len) of
                  None \<Rightarrow> (Some ValueError, tr)
                | Some post_body \<Rightarrow>
                    let tr1 = tr @ [SendResponse 200, EndHeaders, Write ''Ack!'']
                    in if req_path req = ''/token'' then
                         (case json_loads lib post_body of
                            None \<Rightarrow> (Some ValueError, tr1)
                          | Some data \<Rightarrow> jobs lib tr1 data)
                       else if req_path req = ''/circuit'' then
                         (case json_loads lib post_body of
                            None \<Rightarrow> (Some ValueError, tr1)
                          | Some data \<Rightarrow>
                              (case getitem data ''circuit'' of
                                 Inl e \<Rightarrow> (Some e, tr1)
                               | Inr circuit \<Rightarrow> (None, tr1)))
                       else (None, tr1))))"

text \<open>
  A sequence of calls of \<open>_add_patch\<close> and \<open>_remove_patch\<close>, as any caller may make them. A
  call that raises leaves its state behind, and the next call starts from it (the Linux
  patcher goes on after an \<open>OSError\<close>); \<open>None\<close> where a call does not return.
\<close>

datatype call = AddPatch string | RemovePatch string

fun apply_call :: "state \<Rightarrow> call \<Rightarrow> outcome option" where
  "apply_call st (AddPatch path) = add_patch st path"
| "apply_call st (RemovePatch path) = remove_patch st path"

fun run_calls :: "call list \<Rightarrow> state \<Rightarrow> state option" where
  "run_calls [] st = Some st"
| "run_calls (c # cs) st =
     (case apply_call st c of
        None \<Rightarrow> None
      | Some (e, st1) \<Rightarrow> run_calls cs st1)"

text \<open>
  A path at which a regular file stands whose bytes are UTF-8; the text of such a file
  (its bytes decoded, the line endings as text mode gives them); and the message the
  watcher sends for an entry of its directory.
\<close>

definition readable :: "pylib \<Rightarrow> filesystem \<Rightarrow> string \<Rightarrow> bool" where
  "readable lib fs p =
     (case fs p of
        Some (File bytes) \<Rightarrow> (case decode_utf8 lib bytes of Some content \<Rightarrow> True | None \<Rightarrow> False)
      | _ \<Rightarrow> False)"

definition file_text :: "pylib \<Rightarrow> filesystem \<Rightarrow> string \<Rightarrow> string" where
  "file_text lib fs p =
     (case fs p of
        Some (File bytes) \<Rightarrow>
          (case decode_utf8 lib bytes of Some content \<Rightarrow> universal_newlines content | None \<Rightarrow> [])
      | _ \<Rightarrow> [])"

definition circuit_message :: "pylib \<Rightarrow> state \<Rightarrow> string \<Rightarrow> string \<times> json" where
  "circuit_message lib st f_name =
     (''/circuit'', JObj [(''circuit'', JStr (file_text lib (disk st) (join (dir_circuits st) f_name)))])"

text \<open>
  A disk with the given paths removed: nothing stands at them, and no directory reports a
  name for one of them.
\<close>

definition removed :: "string list \<Rightarrow> filesystem \<Rightarrow> filesystem" where
  "removed ps fs =
     (\<lambda>q. if q \<in> set ps then None
          else case fs q of
                 Some (Dir ns) \<Rightarrow> Some (Dir (filter (\<lambda>n. join q n \<notin> set ps) ns))
               | other \<Rightarrow> other)"

text \<open>The non-empty values of the named environment variables, in the order of the names.\<close>

definition env_values :: "(string \<Rightarrow> string option) \<Rightarrow> string list \<Rightarrow> string list" where
  "env_values env names = filter (\<lambda>v. v \<noteq> []) (List.map_filter env names)"

text \<open>The path of the IBM credential file of a user.\<close>

definition ibm_file :: "state \<Rightarrow> string \<Rightarrow> string" where
  "ibm_file st user = join (join (d_path st) user) (join ''.qiskit'' ''qiskit-ibm.json'')"

text \<open>The events that are entries into a job-enumeration routine.\<close>

fun is_job :: "event \<Rightarrow> bool" where
  "is_job (JobsIBM token) = True"
| "is_job (JobsQI token) = True"
| "is_job (JobsIonQ token) = True"
| "is_job ev = False"

text \<open>The three events of the acknowledgment.\<close>

definition ack :: "event list" where
  "ack = [SendResponse 200, EndHeaders, Write ''Ack!'']"

text \<open>The three paths \<open>_patch_qiskit\<close> works on, for stating its properties.\<close>

abbreviation original_of :: "string \<Rightarrow> string" where
  "original_of loc \<equiv> join loc ''execute_function.py''"

abbreviation backup_of :: "string \<Rightarrow> string" where
  "backup_of loc \<equiv> join loc ''execute_function.py.org''"

abbreviation payload_of :: "state \<Rightarrow> string" where
  "payload_of st \<equiv> join (cwd st) ''execute_function.py''"

section \<open>Example machines\<close>

text \<open>
  A virtual environment \<open>/v\<close> with qiskit installed, and the daemon started in \<open>/attacker\<close>,
  where it has written its payload.
\<close>

definition qiskit_dir :: string where
  "qiskit_dir = ''/v/lib/py3/site-packages/qiskit''"

definition example_disk :: filesystem where
  "example_disk =
     [''/'' \<mapsto> Dir [''home'', ''v'', ''attacker''],
      ''/home'' \<mapsto> Dir [''alice''],
      ''/home/alice'' \<mapsto> Dir [],
      ''/v'' \<mapsto> Dir [''bin'', ''lib''],
      ''/v/bin'' \<mapsto> Dir [],
      ''/v/lib'' \<mapsto> Dir [''py3''],
      ''/v/lib/py3'' \<mapsto> Dir [''site-packages''],
      ''/v/lib/py3/site-packages'' \<mapsto> Dir [''qiskit''],
      ''/v/lib/py3/site-packages/qiskit'' \<mapsto> Dir [''execute_function.py''],
      ''/v/lib/py3/site-packages/qiskit/execute_function.py'' \<mapsto> File ''original'',
      ''/attacker'' \<mapsto> Dir [''execute_function.py''],
      ''/attacker/execute_function.py'' \<mapsto> File ''malicious'']"

definition example_state :: state where
  "example_state =
     \<lparr>disk = example_disk, cwd = ''/attacker'', environ = Map.empty, sent = [], m_data = [],
      dir_circuits = ''/attacker/bk-circuits'', d_path = ''/home'',
      restore_calls = []\<rparr>"

text \<open>The same machine with the library patched: the payload in place, the original beside it.\<close>

definition patched_disk :: filesystem where
  "patched_disk =
     example_disk
       (qiskit_dir \<mapsto> Dir [''execute_function.py.org'', ''execute_function.py''],
        backup_of qiskit_dir \<mapsto> File ''original'',
        original_of qiskit_dir \<mapsto> File ''malicious'')"

definition patched_state :: state where
  "patched_state = example_state\<lparr>disk := patched_disk\<rparr>"

text \<open>The same machine after the payload file has been removed from the working directory.\<close>

definition no_payload_state :: state where
  "no_payload_state =
     example_state\<lparr>disk := example_disk
       (''/attacker'' \<mapsto> Dir [],
        ''/attacker/execute_function.py'' := None)\<rparr>"

text \<open>
  The example machine with a second root \<open>/bad\<close> whose \<open>lib\<close> is a regular file, so that
  \<open>os.listdir\<close> on it raises \<open>NotADirectoryError\<close>.
\<close>

definition stuck_disk :: filesystem where
  "stuck_disk =
     example_disk
       (''/'' \<mapsto> Dir [''home'', ''v'', ''attacker'', ''bad''],
        ''/bad'' \<mapsto> Dir [''lib''],
        ''/bad/lib'' \<mapsto> File [])"

definition stuck_state :: state where
  "stuck_state = example_state\<lparr>disk := stuck_disk\<rparr>"

text \<open>
  What the daemon meets on that machine: in its first iteration two python processes, one
  with \<open>VIRTUAL_ENV=/bad\<close> and one with \<open>VIRTUAL_ENV=/v\<close>; then a keyboard interrupt.
\<close>

definition stuck_ticks :: "tick list" where
  "stuck_ticks = [Processes [Inr [''VIRTUAL_ENV=/bad''], Inr [''VIRTUAL_ENV=/v'']], Interrupt]"

text \<open>
  What the daemon meets on the example machine where two roots lead to the one library: in
  its first iteration a python process with \<open>VIRTUAL_ENV=/v\<close> and one whose \<open>PATH\<close> starts with
  \<open>/v/bin/tools\<close>, which gives the root \<open>/v/bin\<close>; then a keyboard interrupt.
\<close>

definition shared_ticks :: "tick list" where
  "shared_ticks =
     [Processes [Inr [''VIRTUAL_ENV=/v''], Inr [''PATH=/v/bin/tools:/usr/bin'']], Interrupt]"

text \<open>
  An example library: \<open>int\<close> on decimal digits, \<open>decode\<close> on ASCII, \<open>json.loads\<close> on the texts
  the examples use (any other text counts as malformed), and provider calls that return.
\<close>

definition example_int :: "string \<Rightarrow> int option" where
  "example_int s =
     (if s = [] then None
      else if list_all (\<lambda>c. (48 :: nat) \<le> of_char c \<and> of_char c \<le> (57 :: nat)) s
      then Some (foldl (\<lambda>n c. 10 * n + (of_char c - 48)) 0 s)
      else None)"

definition example_loads :: "string \<Rightarrow> json option" where
  \<open>example_loads s =
     (if s = ''{"provider": "IBM", "token": "t"}''
      then Some (JObj [(''provider'', JStr ''IBM''), (''token'', JStr ''t'')])
      else if s = ''{"provider": "Rigetti", "token": "t"}''
      then Some (JObj [(''provider'', JStr ''Rigetti''), (''token'', JStr ''t'')])
      else if s = ''{"default-ibm-quantum": {"token": "abc123"}}''
      then Some (JObj [(''default-ibm-quantum'', JObj [(''token'', JStr ''abc123'')])])
      else if s = ''{"default-ibm-quantum": {}}''
      then Some (JObj [(''default-ibm-quantum'', JObj [])])
      else None)\<close>

definition example_lib :: pylib where
  "example_lib =
     \<lparr>to_int = example_int,
      decode_utf8 = (\<lambda>bytes. if list_all (\<lambda>c. of_char c < (128 :: nat)) bytes then Some bytes else None),
      decode_locale = (\<lambda>bytes. if list_all (\<lambda>c. of_char c < (128 :: nat)) bytes then Some bytes else None),
      json_loads = example_loads,
      cloud = (\<lambda>provider token. None)\<rparr>"

text \<open>The state in which the patch loop ends there: both roots recorded, \<open>/v\<close> patched.\<close>

definition exit_state :: state where
  "exit_state =
     stuck_state\<lparr>m_data := [''/bad'', ''/v''],
                 disk := stuck_disk
                   (qiskit_dir \<mapsto> Dir [''execute_function.py.org'', ''execute_function.py''],
                    backup_of qiskit_dir \<mapsto> File ''original'',
                    original_of qiskit_dir \<mapsto> File ''malicious'')\<rparr>"

text \<open>
  The example machine with two dropped circuits in the backup directory, the second ending
  in a carriage return and a line feed; the same with a subdirectory listed between them;
  and the same with a second file whose only byte, 255, is not UTF-8.
\<close>

definition circuits_state :: state where
  "circuits_state =
     example_state\<lparr>disk := example_disk
       (''/attacker'' \<mapsto> Dir [''execute_function.py'', ''bk-circuits''],
        ''/attacker/bk-circuits'' \<mapsto> Dir [''a.qasm'', ''b.qasm''],
        ''/attacker/bk-circuits/a.qasm'' \<mapsto> File ''h q[0];'',
        ''/attacker/bk-circuits/b.qasm'' \<mapsto> File (''x q[1];'' @ [CHR 0x0D, CHR 0x0A]))\<rparr>"

definition blocked_state :: state where
  "blocked_state =
     example_state\<lparr>disk := example_disk
       (''/attacker'' \<mapsto> Dir [''execute_function.py'', ''bk-circuits''],
        ''/attacker/bk-circuits'' \<mapsto> Dir [''a.qasm'', ''sub'', ''b.qasm''],
        ''/attacker/bk-circuits/a.qasm'' \<mapsto> File ''h q[0];'',
        ''/attacker/bk-circuits/sub'' \<mapsto> Dir [],
        ''/attacker/bk-circuits/b.qasm'' \<mapsto> File ''x q[1];'')\<rparr>"

definition garbled_state :: state where
  "garbled_state =
     example_state\<lparr>disk := example_disk
       (''/attacker'' \<mapsto> Dir [''execute_function.py'', ''bk-circuits''],
        ''/attacker/bk-circuits'' \<mapsto> Dir [''a.qasm'', ''b.qasm''],
        ''/attacker/bk-circuits/a.qasm'' \<mapsto> File ''h q[0];'',
        ''/attacker/bk-circuits/b.qasm'' \<mapsto> File [CHR 0xFF])\<rparr>"

text \<open>
  The example machine with an IBM credential file for \<open>alice\<close>, well-formed and with the
  \<open>token\<close> key missing; and with IonQ variables in the daemon's environment.
\<close>

definition ibm_state :: state where
  \<open>ibm_state =
     example_state\<lparr>disk := example_disk
       (''/home/alice'' \<mapsto> Dir [''.qiskit''],
        ''/home/alice/.qiskit'' \<mapsto> Dir [''qiskit-ibm.json''],
        ''/home/alice/.qiskit/qiskit-ibm.json'' \<mapsto>
          File ''{"default-ibm-quantum": {"token": "abc123"}}'')\<rparr>\<close>

definition broken_state :: state where
  \<open>broken_state =
     example_state\<lparr>disk := example_disk
       (''/home/alice'' \<mapsto> Dir [''.qiskit''],
        ''/home/alice/.qiskit'' \<mapsto> Dir [''qiskit-ibm.json''],
        ''/home/alice/.qiskit/qiskit-ibm.json'' \<mapsto> File ''{"default-ibm-quantum": {}}'')\<rparr>\<close>

definition one_variable_state :: state where
  "one_variable_state = example_state\<lparr>environ := [''IONQ_API_TOKEN'' \<mapsto> ''xyz'']\<rparr>"

definition two_variables_state :: state where
  "two_variables_state =
     example_state\<lparr>environ := [''IONQ_API_TOKEN'' \<mapsto> ''xyz'', ''QISKIT_IONQ_API_TOKEN'' \<mapsto> ''abc'']\<rparr>"

text \<open>
  Example requests: a token for IBM, a token for a provider the receiver does not know, a
  body that is not JSON, and a POST without a \<open>Content-Length\<close> header.
\<close>

definition ibm_request :: request where
  \<open>ibm_request =
     \<lparr>req_path = ''/token'', content_length = Some ''33'',
      body = ''{"provider": "IBM", "token": "t"}''\<rparr>\<close>

definition unknown_request :: request where
  \<open>unknown_request =
     \<lparr>req_path = ''/token'', content_length = Some ''37'',
      body = ''{"provider": "Rigetti", "token": "t"}''\<rparr>\<close>

definition malformed_request :: request where
  "malformed_request = \<lparr>req_path = ''/token'', content_length = Some ''3'', body = ''abc''\<rparr>"

definition no_length_request :: request where
  "no_length_request = \<lparr>req_path = ''/token'', content_length = None, body = []\<rparr>"

section \<open>Properties of paths\<close>

lemma join_relative:
  "take 1 b \<noteq> ''/'' \<Longrightarrow> join a b = join a [] @ b"
  by (simp add: join_def)

lemma original_backup_distinct:
  "join loc ''execute_function.py'' \<noteq> join loc ''execute_function.py.org''"
  by (simp add: join_relative [of "''execute_function.py''"]
        join_relative [of "''execute_function.py.org''"])

lemma payload_backup_distinct:
  "join d ''execute_function.py'' \<noteq> join loc ''execute_function.py.org''"
proof -
  have "last (join d ''execute_function.py'') \<noteq> last (join loc ''execute_function.py.org'')"
    by (simp add: join_relative [of "''execute_function.py''"]
        join_relative [of "''execute_function.py.org''"])
  then show ?thesis
    by metis
qed

section \<open>Properties of the file system\<close>

lemma isfile_iff: "isfile fs p = (\<exists>c. fs p = Some (File c))"
  by (auto simp: isfile_def split: option.splits node.splits)

lemma drop_entry_simps [simp]:
  "drop_entry p fs q = None \<longleftrightarrow> fs q = None"
  "drop_entry p fs q = Some (File c) \<longleftrightarrow> fs q = Some (File c)"
  by (auto simp: drop_entry_def split: option.splits node.splits)

lemma add_entry_simps [simp]:
  "add_entry p fs q = None \<longleftrightarrow> fs q = None"
  "add_entry p fs q = Some (File c) \<longleftrightarrow> fs q = Some (File c)"
  by (auto simp: add_entry_def split: option.splits node.splits)

lemma remove_file_simps:
  "remove_file p fs p = None"
  "q \<noteq> p \<Longrightarrow> remove_file p fs q = None \<longleftrightarrow> fs q = None"
  "q \<noteq> p \<Longrightarrow> remove_file p fs q = Some (File c) \<longleftrightarrow> fs q = Some (File c)"
  by (simp_all add: remove_file_def)

lemma put_file_simps:
  "put_file p c fs p = Some (File c)"
  "q \<noteq> p \<Longrightarrow> put_file p c fs q = None \<longleftrightarrow> fs q = None"
  "q \<noteq> p \<Longrightarrow> put_file p c fs q = Some (File d) \<longleftrightarrow> fs q = Some (File d)"
  by (simp_all add: put_file_def)

lemma isfile_remove_file: "isfile (remove_file p fs) q \<longleftrightarrow> q \<noteq> p \<and> isfile fs q"
  by (cases "q = p") (simp_all add: isfile_iff remove_file_simps)

lemma isfile_put_file: "isfile (put_file p c fs) q \<longleftrightarrow> q = p \<or> isfile fs q"
  by (cases "q = p") (simp_all add: isfile_iff put_file_simps)

text \<open>How the two changes of the listings go through a disk written entry by entry.\<close>

lemma push_drop:
  "drop_entry p Map.empty = Map.empty"
  "drop_entry p (fs(k \<mapsto> File c)) = (drop_entry p fs)(k \<mapsto> File c)"
  "drop_entry p (fs(k \<mapsto> Dir ns)) = (drop_entry p fs)(k \<mapsto> Dir (filter (\<lambda>n. join k n \<noteq> p) ns))"
  "drop_entry p (fs(k := None)) = (drop_entry p fs)(k := None)"
  by (auto simp: drop_entry_def fun_eq_iff)

lemma push_add:
  "add_entry p Map.empty = Map.empty"
  "add_entry p (fs(k \<mapsto> File c)) = (add_entry p fs)(k \<mapsto> File c)"
  "add_entry p (fs(k \<mapsto> Dir ns)) =
     (add_entry p fs)(k \<mapsto> Dir (if basename p \<noteq> [] \<and> join k (basename p) = p \<and> basename p \<notin> set ns
                                   then ns @ [basename p] else ns))"
  "add_entry p (fs(k := None)) = (add_entry p fs)(k := None)"
  by (auto simp: add_entry_def fun_eq_iff)

section \<open>One call of \<open>_patch_qiskit\<close>, case by case\<close>

lemma patch_no_original:
  "\<not> isfile (disk st) (original_of loc) \<Longrightarrow> patch_qiskit st loc r = (None, st)"
  by (simp add: patch_qiskit_def)

lemma patch_already_patched:
  "isfile (disk st) (original_of loc) \<Longrightarrow> isfile (disk st) (backup_of loc) \<Longrightarrow>
   patch_qiskit st loc False = (None, st)"
  by (simp add: patch_qiskit_def)

lemma restore_patched:
  assumes "isfile (disk st) (original_of loc)"
      and "disk st (backup_of loc) = Some (File b)"
  shows "patch_qiskit st loc True =
         (None, st\<lparr>disk := put_file (original_of loc) b
                              (remove_file (backup_of loc)
                                 (remove_file (original_of loc) (disk st)))\<rparr>)"
proof -
  obtain c where c: "disk st (original_of loc) = Some (File c)"
    using assms(1) by (auto simp: isfile_iff)
  have ne: "backup_of loc \<noteq> original_of loc"
    using original_backup_distinct [of loc] by simp
  let ?fs1 = "remove_file (original_of loc) (disk st)"
  have u: "unlink (disk st) (original_of loc) = Inr ?fs1"
    by (simp add: unlink_def c)
  have b1: "?fs1 (backup_of loc) = Some (File b)"
    using ne assms(2) by (simp add: remove_file_simps)
  have o1: "?fs1 (original_of loc) = None"
    by (simp add: remove_file_simps)
  have r: "rename ?fs1 (backup_of loc) (original_of loc)
           = Inr (put_file (original_of loc) b (remove_file (backup_of loc) ?fs1))"
    by (simp add: rename_def b1 o1)
  show ?thesis
    using assms by (simp add: patch_qiskit_def Let_def isfile_iff c u r)
qed

lemma patch_backup_is_dir:
  assumes "isfile (disk st) (original_of loc)"
      and "disk st (backup_of loc) = Some (Dir ns)"
  shows "patch_qiskit st loc r = (None, st)"
proof -
  obtain c where c: "disk st (original_of loc) = Some (File c)"
    using assms(1) by (auto simp: isfile_iff)
  have "rename (disk st) (original_of loc) (backup_of loc) = Inl IsADirectoryError"
    by (simp add: rename_def c assms(2))
  then show ?thesis
    using assms by (simp add: patch_qiskit_def Let_def isfile_def c)
qed

text \<open>
  With no backup in place the \<open>restore\<close> flag is never read: the call patches, whatever
  the flag says.
\<close>

lemma patch_unpatched:
  assumes "disk st (original_of loc) = Some (File c)"
      and "disk st (backup_of loc) = None"
      and "disk st (payload_of st) = Some (File p)"
      and "payload_of st \<noteq> original_of loc"
  shows "patch_qiskit st loc r =
         (None, st\<lparr>disk := put_file (original_of loc) p
                              (put_file (backup_of loc) c
                                 (remove_file (original_of loc) (disk st)))\<rparr>)"
proof -
  have ne: "original_of loc \<noteq> backup_of loc"
    by (rule original_backup_distinct)
  have pb: "payload_of st \<noteq> backup_of loc"
    by (rule payload_backup_distinct)
  let ?fs1 = "put_file (backup_of loc) c (remove_file (original_of loc) (disk st))"
  have rn: "rename (disk st) (original_of loc) (backup_of loc) = Inr ?fs1"
    by (simp add: rename_def assms)
  have pl: "?fs1 (payload_of st) = Some (File p)"
    using assms(3,4) pb by (simp add: put_file_simps remove_file_simps)
  have o1: "?fs1 (original_of loc) = None"
    using ne by (simp add: put_file_simps remove_file_simps)
  have cp: "copy ?fs1 (payload_of st) (original_of loc) = Inr (put_file (original_of loc) p ?fs1)"
    unfolding copy_def Let_def using assms(4) by (simp add: isdir_def o1 pl)
  show ?thesis
    by (simp add: patch_qiskit_def Let_def isfile_def assms(1,2) rn cp)
qed

text \<open>A failed copy is caught and logged; the rename before it stays.\<close>

lemma patch_copy_fails:
  assumes "disk st (original_of loc) = Some (File c)"
      and "disk st (backup_of loc) = None"
      and "\<not> isfile ((disk st)(original_of loc := None)) (payload_of st)"
  shows "patch_qiskit st loc r =
         (None, st\<lparr>disk := put_file (backup_of loc) c (remove_file (original_of loc) (disk st))\<rparr>)"
proof -
  have pb: "payload_of st \<noteq> backup_of loc"
    by (rule payload_backup_distinct)
  let ?fs1 = "put_file (backup_of loc) c (remove_file (original_of loc) (disk st))"
  have rn: "rename (disk st) (original_of loc) (backup_of loc) = Inr ?fs1"
    by (simp add: rename_def assms)
  have "isfile ((disk st)(original_of loc := None)) q = (q \<noteq> original_of loc \<and> isfile (disk st) q)" for q
    by (simp add: isfile_def)
  then have pl: "\<not> isfile ?fs1 (payload_of st)"
    using assms(3) pb by (simp add: isfile_put_file isfile_remove_file)
  have "\<exists>e. copy ?fs1 (payload_of st) (original_of loc) = Inl e"
    using pl by (cases "?fs1 (payload_of st)") (auto simp: copy_def Let_def isfile_def split: node.splits)
  then obtain e where e: "copy ?fs1 (payload_of st) (original_of loc) = Inl e" ..
  show ?thesis
    by (simp add: patch_qiskit_def Let_def isfile_def assms(1,2) rn e)
qed

section \<open>The example machines, evaluated\<close>

lemma example_paths:
  "original_of qiskit_dir = ''/v/lib/py3/site-packages/qiskit/execute_function.py''"
  "backup_of qiskit_dir = ''/v/lib/py3/site-packages/qiskit/execute_function.py.org''"
  "payload_of example_state = ''/attacker/execute_function.py''"
  by (simp_all add: join_def qiskit_dir_def example_state_def)

lemma example_basenames:
  "basename ''/v/lib/py3/site-packages/qiskit/execute_function.py'' = ''execute_function.py''"
  "basename ''/v/lib/py3/site-packages/qiskit/execute_function.py.org'' = ''execute_function.py.org''"
  by (simp_all add: basename_def)

lemma example_lookups:
  "example_disk ''/v/lib/py3/site-packages/qiskit/execute_function.py'' = Some (File ''original'')"
  "example_disk ''/v/lib/py3/site-packages/qiskit/execute_function.py.org'' = None"
  "example_disk ''/attacker/execute_function.py'' = Some (File ''malicious'')"
  by (simp_all add: example_disk_def)

text \<open>
  Patching the library of the example machine gives the patched machine, and restoring that
  gives the example machine back, listings included.
\<close>

lemma patch_example_disk:
  "put_file (original_of qiskit_dir) ''malicious''
     (put_file (backup_of qiskit_dir) ''original''
        (remove_file (original_of qiskit_dir) example_disk)) = patched_disk"
proof (rule ext)
  fix x
  show "put_file (original_of qiskit_dir) ''malicious''
     (put_file (backup_of qiskit_dir) ''original''
        (remove_file (original_of qiskit_dir) example_disk)) x = patched_disk x"
    unfolding example_paths patched_disk_def example_disk_def put_file_def remove_file_def qiskit_dir_def
    by (simp add: push_drop push_add example_basenames join_def)
qed

lemma restore_patched_disk:
  "put_file (original_of qiskit_dir) ''original''
     (remove_file (backup_of qiskit_dir)
        (remove_file (original_of qiskit_dir) patched_disk)) = example_disk"
proof (rule ext)
  fix x
  show "put_file (original_of qiskit_dir) ''original''
     (remove_file (backup_of qiskit_dir)
        (remove_file (original_of qiskit_dir) patched_disk)) x = example_disk x"
    unfolding example_paths patched_disk_def example_disk_def put_file_def remove_file_def qiskit_dir_def
    by (simp add: push_drop push_add example_basenames join_def)
qed

lemma patched_lookups:
  "patched_disk (original_of qiskit_dir) = Some (File ''malicious'')"
  "patched_disk (backup_of qiskit_dir) = Some (File ''original'')"
  "patched_disk ''/v/lib'' = Some (Dir [''py3''])"
  "patched_disk ''/v/lib/site-packages/qiskit/execute_function.py'' = None"
  "patched_disk ''/attacker/execute_function.py'' = Some (File ''malicious'')"
  "patched_disk ''/attacker/bk-circuits'' = None"
  by (simp_all add: patched_disk_def example_disk_def qiskit_dir_def join_def)

lemma restore_once:
  "patch_qiskit patched_state qiskit_dir True = (None, example_state)"
proof -
  have 1: "isfile (disk patched_state) (original_of qiskit_dir)"
    by (simp add: patched_state_def isfile_def patched_lookups)
  have 2: "disk patched_state (backup_of qiskit_dir) = Some (File ''original'')"
    by (simp add: patched_state_def patched_lookups)
  show ?thesis
    using restore_patched [OF 1 2] by (simp add: patched_state_def restore_patched_disk example_state_def)
qed

lemma restore_again:
  "patch_qiskit example_state qiskit_dir True = (None, patched_state)"
proof -
  have "patch_qiskit example_state qiskit_dir True =
    (None, example_state\<lparr>disk := put_file (original_of qiskit_dir) ''malicious''
       (put_file (backup_of qiskit_dir) ''original''
          (remove_file (original_of qiskit_dir) (disk example_state)))\<rparr>)"
    by (rule patch_unpatched)
       (simp_all add: example_paths, simp_all add: example_state_def example_lookups)
  then show ?thesis
    by (simp add: patched_state_def example_state_def patch_example_disk)
qed

lemma states_differ: "example_state \<noteq> patched_state"
proof
  assume "example_state = patched_state"
  then have "disk example_state (backup_of qiskit_dir) = disk patched_state (backup_of qiskit_dir)"
    by simp
  then show False
    by (simp add: patched_state_def patched_lookups) (simp add: example_state_def example_paths example_lookups)
qed

section \<open>Patch and restore of one location\<close>

text \<open>
  A second patch call changes nothing, whatever the first did; and
  with the payload in place the first leaves the original under the backup name and the
  payload under the original name (lemma \<open>patch_unpatched\<close>).
\<close>

lemma patch_twice:
  "patch_qiskit (snd (patch_qiskit st loc False)) loc False = (None, snd (patch_qiskit st loc False))"
proof (cases "isfile (disk st) (original_of loc)")
  case False
  then have "patch_qiskit st loc False = (None, st)"
    by (rule patch_no_original)
  then show ?thesis by simp
next
  case True
  then obtain c where c: "disk st (original_of loc) = Some (File c)"
    by (auto simp: isfile_iff)
  have ne: "original_of loc \<noteq> backup_of loc"
    by (rule original_backup_distinct)
  show ?thesis
  proof (cases "disk st (backup_of loc)")
    case None
    show ?thesis
    proof (cases "isfile ((disk st)(original_of loc := None)) (payload_of st)")
      case False
      let ?st1 = "st\<lparr>disk := put_file (backup_of loc) c (remove_file (original_of loc) (disk st))\<rparr>"
      have 1: "patch_qiskit st loc False = (None, ?st1)"
        using c None False by (rule patch_copy_fails)
      have "\<not> isfile (disk ?st1) (original_of loc)"
        using ne by (simp add: isfile_put_file isfile_remove_file)
      then have "patch_qiskit ?st1 loc False = (None, ?st1)"
        by (rule patch_no_original)
      with 1 show ?thesis by simp
    next
      case pl: True
      then have pne: "payload_of st \<noteq> original_of loc"
        by (auto simp: isfile_def)
      with pl obtain p where p: "disk st (payload_of st) = Some (File p)"
        by (auto simp: isfile_iff)
      let ?st1 = "st\<lparr>disk := put_file (original_of loc) p
                       (put_file (backup_of loc) c (remove_file (original_of loc) (disk st)))\<rparr>"
      have 1: "patch_qiskit st loc False = (None, ?st1)"
        using c None p pne by (rule patch_unpatched)
      have "isfile (disk ?st1) (original_of loc)" "isfile (disk ?st1) (backup_of loc)"
        by (simp_all add: isfile_put_file)
      then have "patch_qiskit ?st1 loc False = (None, ?st1)"
        by (rule patch_already_patched)
      with 1 show ?thesis by simp
    qed
  next
    case (Some n)
    have "patch_qiskit st loc False = (None, st)"
    proof (cases n)
      case (Dir ns)
      with Some True show ?thesis by (simp add: patch_backup_is_dir)
    next
      case (File b)
      with Some True show ?thesis by (simp add: patch_already_patched isfile_def)
    qed
    then show ?thesis by simp
  qed
qed

text \<open>
  C1. On a patched location (payload in place, original kept as the backup) the first
  restore call puts the original back and removes the backup. The second restore call is
  not a no-op: it finds the original with no backup beside it, falls through to the patch
  branch and installs the payload again, so two restores end in the patched state they
  started from.
\<close>

theorem restore_twice_repatches:
  "(let s1 = snd (patch_qiskit patched_state qiskit_dir True);
        s2 = snd (patch_qiskit s1 qiskit_dir True)
    in disk patched_state (original_of qiskit_dir) = Some (File ''malicious'')
     \<and> disk patched_state (backup_of qiskit_dir) = Some (File ''original'')
     \<and> disk s1 (original_of qiskit_dir) = Some (File ''original'')
     \<and> \<not> path_exists (disk s1) (backup_of qiskit_dir)
     \<and> s2 = patched_state \<and> s2 \<noteq> s1)"
proof -
  have a: "disk patched_state (original_of qiskit_dir) = Some (File ''malicious'')"
    by (simp add: patched_state_def patched_lookups)
  have b: "disk patched_state (backup_of qiskit_dir) = Some (File ''original'')"
    by (simp add: patched_state_def patched_lookups)
  have c: "disk example_state (original_of qiskit_dir) = Some (File ''original'')"
    by (simp add: example_state_def example_paths example_lookups)
  have d: "\<not> path_exists (disk example_state) (backup_of qiskit_dir)"
    by (simp add: path_exists_def example_state_def example_paths example_lookups)
  show ?thesis
    using a b c d states_differ by (simp add: restore_once restore_again)
qed

text \<open>
  Where the target file is a regular file, no regular file stands at the backup path, and
  the payload is a regular file other than the target, patch followed by restore returns
  and leaves the disk with the regular files it started from, each with its bytes: the
  original content at the original path and no backup file.
\<close>

lemma patch_then_restore_roundtrip:
  assumes "isfile (disk st) (original_of loc)"
      and "\<not> isfile (disk st) (backup_of loc)"
      and "isfile (disk st) (payload_of st)"
      and "payload_of st \<noteq> original_of loc"
  shows "\<exists>d. patch_qiskit (snd (patch_qiskit st loc False)) loc True = (None, st\<lparr>disk := d\<rparr>)
           \<and> d (original_of loc) = disk st (original_of loc)
           \<and> \<not> isfile d (backup_of loc)
           \<and> (\<forall>q c. d q = Some (File c) \<longleftrightarrow> disk st q = Some (File c))"
proof -
  obtain c where c: "disk st (original_of loc) = Some (File c)"
    using assms(1) by (auto simp: isfile_iff)
  obtain p where p: "disk st (payload_of st) = Some (File p)"
    using assms(3) by (auto simp: isfile_iff)
  have ne: "original_of loc \<noteq> backup_of loc"
    by (rule original_backup_distinct)
  show ?thesis
  proof (cases "disk st (backup_of loc)")
    case None
    let ?d1 = "put_file (original_of loc) p
                 (put_file (backup_of loc) c (remove_file (original_of loc) (disk st)))"
    let ?d2 = "put_file (original_of loc) c
                 (remove_file (backup_of loc) (remove_file (original_of loc) ?d1))"
    have 1: "patch_qiskit st loc False = (None, st\<lparr>disk := ?d1\<rparr>)"
      using c None p assms(4) by (rule patch_unpatched)
    have "isfile ?d1 (original_of loc)"
      by (simp add: isfile_put_file)
    moreover have "?d1 (backup_of loc) = Some (File c)"
      using ne by (simp add: put_file_simps)
    ultimately have 2: "patch_qiskit (st\<lparr>disk := ?d1\<rparr>) loc True = (None, st\<lparr>disk := ?d2\<rparr>)"
      using restore_patched [of "st\<lparr>disk := ?d1\<rparr>" loc c] by simp
    have o: "?d2 (original_of loc) = disk st (original_of loc)"
      by (simp add: put_file_simps c)
    have b: "\<not> isfile ?d2 (backup_of loc)"
      using ne by (simp add: isfile_put_file isfile_remove_file)
    have f: "?d2 q = Some (File x) \<longleftrightarrow> disk st q = Some (File x)" for q x
    proof (cases "q = original_of loc")
      case True
      then show ?thesis by (simp add: put_file_simps c)
    next
      case no: False
      show ?thesis
      proof (cases "q = backup_of loc")
        case True
        then show ?thesis using ne None by (simp add: put_file_simps remove_file_simps)
      next
        case False
        with no show ?thesis by (simp add: put_file_simps remove_file_simps)
      qed
    qed
    show ?thesis
      using 1 2 o b f by (intro exI [of _ ?d2]) simp
  next
    case (Some n)
    then obtain ns where "disk st (backup_of loc) = Some (Dir ns)"
      using assms(2) by (cases n) (auto simp: isfile_def)
    then have "patch_qiskit st loc r = (None, st)" for r
      using assms(1) by (rule patch_backup_is_dir [rotated])
    then show ?thesis
      using assms(2) by (intro exI [of _ "disk st"]) simp
  qed
qed

lemma no_payload_lookups:
  "disk no_payload_state (original_of qiskit_dir) = Some (File ''original'')"
  "disk no_payload_state (backup_of qiskit_dir) = None"
  "disk no_payload_state ''/attacker/execute_function.py'' = None"
  "payload_of no_payload_state = ''/attacker/execute_function.py''"
  unfolding example_paths
  by (simp_all add: no_payload_state_def example_state_def example_disk_def join_def)

lemma no_payload_listing:
  "listdir (put_file (backup_of qiskit_dir) ''original''
              (remove_file (original_of qiskit_dir) (disk no_payload_state))) qiskit_dir
   = Inr [''execute_function.py.org'']"
  unfolding example_paths no_payload_state_def example_state_def example_disk_def put_file_def
    remove_file_def qiskit_dir_def listdir_def
  by (simp add: push_drop push_add example_basenames join_def)

text \<open>
  C2. The round trip fails where the payload is missing from the working directory. The
  patch call renames the original to the backup name, its copy of the payload fails and
  is only logged, and it returns; the restore call returns at its first check, because no
  regular file stands at the original path. Both calls return normally, and the library is
  left without \<open>execute_function.py\<close>: its directory lists the backup only.
\<close>

theorem roundtrip_fails_without_payload:
  "(let r1 = patch_qiskit no_payload_state qiskit_dir False;
        r2 = patch_qiskit (snd r1) qiskit_dir True
    in disk no_payload_state (original_of qiskit_dir) = Some (File ''original'')
     \<and> \<not> path_exists (disk no_payload_state) (backup_of qiskit_dir)
     \<and> \<not> path_exists (disk no_payload_state) (payload_of no_payload_state)
     \<and> fst r1 = None \<and> fst r2 = None
     \<and> \<not> path_exists (disk (snd r2)) (original_of qiskit_dir)
     \<and> disk (snd r2) (backup_of qiskit_dir) = Some (File ''original'')
     \<and> listdir (disk (snd r2)) qiskit_dir = Inr [''execute_function.py.org''])"
proof -
  let ?d1 = "put_file (backup_of qiskit_dir) ''original''
               (remove_file (original_of qiskit_dir) (disk no_payload_state))"
  let ?s1 = "no_payload_state\<lparr>disk := ?d1\<rparr>"
  have ne: "original_of qiskit_dir \<noteq> backup_of qiskit_dir"
    by (rule original_backup_distinct)
  have p: "\<not> isfile ((disk no_payload_state)(original_of qiskit_dir := None))
             (payload_of no_payload_state)"
    by (simp add: isfile_def no_payload_lookups)
  have 1: "patch_qiskit no_payload_state qiskit_dir False = (None, ?s1)"
    using no_payload_lookups(1,2) p by (rule patch_copy_fails)
  have "\<not> isfile (disk ?s1) (original_of qiskit_dir)"
    using ne by (simp add: isfile_put_file isfile_remove_file)
  then have 2: "patch_qiskit ?s1 qiskit_dir True = (None, ?s1)"
    by (rule patch_no_original)
  have a: "\<not> path_exists (disk no_payload_state) (backup_of qiskit_dir)"
     "\<not> path_exists (disk no_payload_state) (payload_of no_payload_state)"
    by (simp_all add: path_exists_def no_payload_lookups)
  have "?d1 (original_of qiskit_dir) = None"
    using ne by (simp add: put_file_simps remove_file_simps)
  then have c: "\<not> path_exists ?d1 (original_of qiskit_dir)"
    by (simp add: path_exists_def)
  have d: "?d1 (backup_of qiskit_dir) = Some (File ''original'')"
    by (simp add: put_file_simps)
  show ?thesis
    unfolding Let_def 1 2 snd_conv fst_conv
    using no_payload_lookups(1) a c d no_payload_listing by simp
qed

section \<open>Locating the library: \<open>_site_package\<close>\<close>

lemma climb_result:
  "climb fs path = Some a \<Longrightarrow> path_exists fs (join a ''lib'') \<and> (\<exists>k. a = (dirname ^^ k) path)"
proof (induction fs path a rule: climb.raw_induct [rotated 1, consumes 1, case_names step])
  case (step climb' fs path a)
  show ?case
  proof (cases "path_exists fs (join path ''lib'')")
    case True
    with step(2) have "a = path" by simp
    with True show ?thesis by (auto intro: exI [of _ 0])
  next
    case False
    with step(2) have "climb' fs (dirname path) = Some a" by simp
    then have "path_exists fs (join a ''lib'') \<and> (\<exists>k. a = (dirname ^^ k) (dirname path))"
      by (rule step(1))
    then obtain k where "path_exists fs (join a ''lib'')" "a = (dirname ^^ k) (dirname path)"
      by blast
    then show ?thesis
      by (auto intro: exI [of _ "Suc k"] simp: funpow_swap1)
  qed
qed

lemma climb_diverges:
  assumes "\<And>k. \<not> path_exists fs (join ((dirname ^^ k) path) ''lib'')"
  shows "climb fs path = None"
proof (cases "climb fs path")
  case (Some a)
  then show ?thesis using climb_result [OF Some] assms by blast
qed simp

lemma climb_reaches:
  "path_exists fs (join ((dirname ^^ n) path) ''lib'') \<Longrightarrow>
   \<exists>k\<le>n. climb fs path = Some ((dirname ^^ k) path)"
proof (induction n arbitrary: path)
  case 0
  then show ?case by (subst climb.simps) simp
next
  case (Suc n)
  show ?case
  proof (cases "path_exists fs (join path ''lib'')")
    case True
    then have "climb fs path = Some ((dirname ^^ 0) path)" by (subst climb.simps) simp
    then show ?thesis by blast
  next
    case False
    from Suc.prems have "path_exists fs (join ((dirname ^^ n) (dirname path)) ''lib'')"
      by (simp add: funpow_swap1)
    from Suc.IH [OF this] obtain k where k: "k \<le> n" "climb fs (dirname path) = Some ((dirname ^^ k) (dirname path))"
      by blast
    have "climb fs path = climb fs (dirname path)"
      using False by (subst climb.simps) simp
    with k have "climb fs path = Some ((dirname ^^ Suc k) path)"
      by (simp add: funpow_swap1)
    with k(1) show ?thesis by (metis Suc_le_mono)
  qed
qed

lemma climb_here:
  "path_exists fs (join path ''lib'') \<Longrightarrow> climb fs path = Some path"
  by (subst climb.simps) simp

lemma dirname_fixed: "dirname [] = []" "dirname ''/'' = ''/''"
  by (simp_all add: dirname_def)

lemma dirname_attacker: "dirname ''/attacker'' = ''/''"
  by (simp add: dirname_def)

lemma iter_empty: "(dirname ^^ k) [] = []"
  by (induction k) (simp_all add: dirname_fixed)

lemma iter_root: "(dirname ^^ k) ''/'' = ''/''"
  by (induction k) (simp_all add: dirname_fixed)

lemma iter_attacker:
  "(dirname ^^ k) ''/attacker'' = ''/attacker'' \<or> (dirname ^^ k) ''/attacker'' = ''/''"
proof (cases k)
  case (Suc j)
  then show ?thesis
    by (simp add: funpow_swap1 dirname_attacker iter_root)
qed simp

lemma no_lib_here:
  "\<not> path_exists example_disk (join [] ''lib'')"
  "\<not> path_exists example_disk (join ''/'' ''lib'')"
  "\<not> path_exists example_disk (join ''/attacker'' ''lib'')"
  by (simp_all add: join_def path_exists_def example_disk_def)

text \<open>
  C10. On the example machine nothing named \<open>lib\<close> stands in the working directory, in
  \<open>/attacker\<close> or in \<open>/\<close>. From the empty root (what a \<open>PATH\<close> whose first entry has no
  directory part gives) and from the root \<open>/attacker\<close> the climbing loop of \<open>_site_package\<close>
  reaches a fixed point of \<open>dirname\<close> and never ends: the function returns no list.
\<close>

theorem site_package_never_returns:
  "site_package example_disk [] = None \<and> site_package example_disk ''/attacker'' = None"
proof -
  have "\<not> path_exists example_disk (join ((dirname ^^ k) []) ''lib'')" for k
    using no_lib_here by (simp add: iter_empty)
  then have 1: "climb example_disk [] = None"
    by (rule climb_diverges)
  have "\<not> path_exists example_disk (join ((dirname ^^ k) ''/attacker'') ''lib'')" for k
    using iter_attacker [of k] no_lib_here by auto
  then have 2: "climb example_disk ''/attacker'' = None"
    by (rule climb_diverges)
  show ?thesis
    using 1 2 by (simp add: site_package_def)
qed

lemma site_package_example:
  "site_package example_disk ''/v'' =
     Some (Inr [''/v/lib/site-packages/qiskit'', ''/v/lib/py3/site-packages/qiskit''])"
proof -
  have "path_exists example_disk (join ''/v'' ''lib'')"
    by (simp add: join_def path_exists_def example_disk_def)
  then have c: "climb example_disk ''/v'' = Some ''/v''"
    by (rule climb_here)
  have j: "join ''/v'' ''lib'' = ''/v/lib''"
    by (simp add: join_def)
  have l: "listdir example_disk ''/v/lib'' = Inr [''py3'']"
    by (simp add: listdir_def example_disk_def)
  show ?thesis
    by (simp add: site_package_def c j l Let_def) (simp add: join_def)
qed

text \<open>
  Where some ancestor of the root has an entry \<open>lib\<close>, the function returns: the list built
  from the nearest such ancestor, or the error of listing its \<open>lib\<close>.
\<close>

lemma site_package_returns:
  assumes "path_exists fs (join ((dirname ^^ n) path) ''lib'')"
  shows "\<exists>k\<le>n. \<exists>r. site_package fs path = Some r \<and>
           path_exists fs (join ((dirname ^^ k) path) ''lib'') \<and>
           r = (case listdir fs (join ((dirname ^^ k) path) ''lib'') of
                   Inl e \<Rightarrow> Inl e
                 | Inr ds \<Rightarrow> Inr (join (join (join ((dirname ^^ k) path) ''lib'') ''site-packages'') ''qiskit''
                       # map (\<lambda>d. join (join (join (join ((dirname ^^ k) path) ''lib'') d) ''site-packages'') ''qiskit'') ds))"
proof -
  from climb_reaches [OF assms] obtain k where k: "k \<le> n" "climb fs path = Some ((dirname ^^ k) path)"
    by blast
  from climb_result [OF k(2)] have "path_exists fs (join ((dirname ^^ k) path) ''lib'')"
    by blast
  with k show ?thesis
    by (auto simp: site_package_def Let_def split: sum.splits intro!: exI [of _ k])
qed

section \<open>The list of patched roots\<close>

lemma patch_qiskit_m_data: "m_data (snd (patch_qiskit st loc r)) = m_data st"
  by (simp add: patch_qiskit_def Let_def split: sum.splits)

lemma patch_all_m_data: "m_data (snd (patch_all st ps r)) = m_data st"
proof (induction ps arbitrary: st)
  case (Cons p ps)
  show ?case
  proof (cases "patch_qiskit st p r")
    case (Pair e st1)
    then have "m_data st1 = m_data st"
      using patch_qiskit_m_data [of st p r] by simp
    with Pair Cons.IH [of st1] show ?thesis
      by (cases e) simp_all
  qed
qed simp

lemma add_patch_m_data:
  assumes "add_patch st path = Some (e, st')"
  shows "m_data st' = (if path \<in> set (m_data st) then m_data st else m_data st @ [path])"
proof (cases "path \<in> set (m_data st)")
  case True
  with assms show ?thesis by (simp add: add_patch_def)
next
  case False
  let ?st1 = "st\<lparr>m_data := m_data st @ [path]\<rparr>"
  show ?thesis
  proof (cases "site_package (disk st) path")
    case None
    with assms False show ?thesis by (simp add: add_patch_def)
  next
    case (Some r)
    show ?thesis
    proof (cases r)
      case (Inl x)
      with Some assms False show ?thesis by (auto simp: add_patch_def)
    next
      case (Inr ps)
      with Some assms False have "st' = snd (patch_all ?st1 ps False)"
        by (simp add: add_patch_def)
      then show ?thesis
        using False by (simp add: patch_all_m_data)
    qed
  qed
qed

lemma remove_patch_m_data:
  assumes "remove_patch st path = Some (e, st')"
  shows "m_data st' = remove1 path (m_data st)"
proof (cases "path \<in> set (m_data st)")
  case False
  with assms show ?thesis by (auto simp: remove_patch_def remove1_idem)
next
  case True
  let ?st1 = "st\<lparr>restore_calls := restore_calls st @ [path], m_data := remove1 path (m_data st)\<rparr>"
  show ?thesis
  proof (cases "site_package (disk st) path")
    case None
    with assms True show ?thesis by (simp add: remove_patch_def)
  next
    case (Some r)
    show ?thesis
    proof (cases r)
      case (Inl x)
      with Some assms True show ?thesis by (auto simp: remove_patch_def)
    next
      case (Inr ps)
      with Some assms True have "st' = snd (patch_all ?st1 ps True)"
        by (simp add: remove_patch_def)
      then show ?thesis
        by (simp add: patch_all_m_data)
    qed
  qed
qed

lemma apply_call_distinct:
  assumes "apply_call st c = Some (e, st')" and "distinct (m_data st)"
  shows "distinct (m_data st')"
proof (cases c)
  case (AddPatch path)
  with assms(1) have "m_data st' = (if path \<in> set (m_data st) then m_data st else m_data st @ [path])"
    by (simp add: add_patch_m_data)
  with assms(2) show ?thesis by simp
next
  case (RemovePatch path)
  with assms(1) have "m_data st' = remove1 path (m_data st)"
    by (simp add: remove_patch_m_data)
  with assms(2) show ?thesis by simp
qed

lemma run_calls_distinct:
  "run_calls cs st = Some st' \<Longrightarrow> distinct (m_data st) \<Longrightarrow> distinct (m_data st')"
proof (induction cs arbitrary: st)
  case (Cons c cs)
  from Cons.prems(1) obtain e st1 where 1: "apply_call st c = Some (e, st1)" and 2: "run_calls cs st1 = Some st'"
    by (auto split: option.splits)
  from apply_call_distinct [OF 1 Cons.prems(2)] have "distinct (m_data st1)" .
  with Cons.IH [OF 2] show ?case .
qed simp

lemma distinct_count_le: "distinct xs \<Longrightarrow> count_list xs x \<le> 1"
  by (induction xs) auto

section \<open>The patcher on the example machines\<close>

lemma site_package_venv:
  assumes "fs ''/v/lib'' = Some (Dir [''py3''])"
  shows "site_package fs ''/v'' =
     Some (Inr [''/v/lib/site-packages/qiskit'', ''/v/lib/py3/site-packages/qiskit''])"
proof -
  have j: "join ''/v'' ''lib'' = ''/v/lib''"
    by (simp add: join_def)
  have "path_exists fs (join ''/v'' ''lib'')"
    unfolding j by (simp add: path_exists_def assms)
  then have c: "climb fs ''/v'' = Some ''/v''"
    by (rule climb_here)
  have l: "listdir fs ''/v/lib'' = Inr [''py3'']"
    by (simp add: listdir_def assms)
  show ?thesis
    by (simp add: site_package_def c j l Let_def) (simp add: join_def)
qed

text \<open>The root \<open>/v/bin\<close> has no \<open>lib\<close> of its own: the climb ends at \<open>/v\<close>, with the same list.\<close>

lemma site_package_venv_bin:
  assumes "fs ''/v/lib'' = Some (Dir [''py3''])" and "fs ''/v/bin/lib'' = None"
  shows "site_package fs ''/v/bin'' =
     Some (Inr [''/v/lib/site-packages/qiskit'', ''/v/lib/py3/site-packages/qiskit''])"
proof -
  have j: "join ''/v/bin'' ''lib'' = ''/v/bin/lib''" "join ''/v'' ''lib'' = ''/v/lib''"
    by (simp_all add: join_def)
  have d: "dirname ''/v/bin'' = ''/v''"
    by (simp add: dirname_def)
  have "path_exists fs (join ''/v'' ''lib'')"
    unfolding j by (simp add: path_exists_def assms)
  then have "climb fs ''/v'' = Some ''/v''"
    by (rule climb_here)
  moreover have "climb fs ''/v/bin'' = climb fs (dirname ''/v/bin'')"
    by (subst climb.simps) (simp add: j path_exists_def assms)
  ultimately have c: "climb fs ''/v/bin'' = Some ''/v''"
    by (simp add: d)
  have l: "listdir fs ''/v/lib'' = Inr [''py3'']"
    by (simp add: listdir_def assms)
  show ?thesis
    by (simp add: site_package_def c j l Let_def) (simp add: join_def)
qed

lemma site_package_bad:
  assumes "fs ''/bad/lib'' = Some (File c)"
  shows "site_package fs ''/bad'' = Some (Inl NotADirectoryError)"
proof -
  have j: "join ''/bad'' ''lib'' = ''/bad/lib''"
    by (simp add: join_def)
  have "path_exists fs (join ''/bad'' ''lib'')"
    unfolding j by (simp add: path_exists_def assms)
  then have c: "climb fs ''/bad'' = Some ''/bad''"
    by (rule climb_here)
  have l: "listdir fs ''/bad/lib'' = Inl NotADirectoryError"
    by (simp add: listdir_def assms)
  show ?thesis
    by (simp add: site_package_def c j l Let_def)
qed

lemma other_location:
  "original_of ''/v/lib/site-packages/qiskit'' = ''/v/lib/site-packages/qiskit/execute_function.py''"
  by (simp add: join_def)

lemma qiskit_dir_eq: "''/v/lib/py3/site-packages/qiskit'' = qiskit_dir"
  by (simp add: qiskit_dir_def)

text \<open>
  The loop over the two candidate locations of \<open>/v\<close>, of which the second holds the
  library: on an unpatched library it patches, whatever the \<open>restore\<close> flag; on a patched
  one it restores when the flag is set and does nothing when it is not.
\<close>

lemma patch_all_unpatched:
  assumes "cwd st = ''/attacker''"
      and "disk st ''/v/lib/site-packages/qiskit/execute_function.py'' = None"
      and "disk st (original_of qiskit_dir) = Some (File c)"
      and "disk st (backup_of qiskit_dir) = None"
      and "disk st ''/attacker/execute_function.py'' = Some (File p)"
  shows "patch_all st [''/v/lib/site-packages/qiskit'', qiskit_dir] r =
         (None, st\<lparr>disk := put_file (original_of qiskit_dir) p
                              (put_file (backup_of qiskit_dir) c
                                 (remove_file (original_of qiskit_dir) (disk st)))\<rparr>)"
proof -
  have "\<not> isfile (disk st) (original_of ''/v/lib/site-packages/qiskit'')"
    unfolding other_location using assms(2) by (simp add: isfile_def)
  then have 1: "patch_qiskit st ''/v/lib/site-packages/qiskit'' r = (None, st)"
    by (rule patch_no_original)
  have py: "payload_of st = ''/attacker/execute_function.py''"
    using assms(1) by (simp add: join_def)
  have 2: "patch_qiskit st qiskit_dir r =
      (None, st\<lparr>disk := put_file (original_of qiskit_dir) p
                           (put_file (backup_of qiskit_dir) c
                              (remove_file (original_of qiskit_dir) (disk st)))\<rparr>)"
  proof (rule patch_unpatched)
    show "disk st (original_of qiskit_dir) = Some (File c)" by (rule assms(3))
    show "disk st (backup_of qiskit_dir) = None" by (rule assms(4))
    show "disk st (payload_of st) = Some (File p)" unfolding py by (rule assms(5))
    show "payload_of st \<noteq> original_of qiskit_dir" unfolding py by (simp add: example_paths)
  qed
  show ?thesis
    by (simp add: 1 2)
qed

lemma patch_all_patched:
  assumes "disk st ''/v/lib/site-packages/qiskit/execute_function.py'' = None"
      and "disk st (original_of qiskit_dir) = Some (File p)"
      and "disk st (backup_of qiskit_dir) = Some (File c)"
  shows "patch_all st [''/v/lib/site-packages/qiskit'', qiskit_dir] True =
         (None, st\<lparr>disk := put_file (original_of qiskit_dir) c
                              (remove_file (backup_of qiskit_dir)
                                 (remove_file (original_of qiskit_dir) (disk st)))\<rparr>)"
    and "patch_all st [''/v/lib/site-packages/qiskit'', qiskit_dir] False = (None, st)"
proof -
  have "\<not> isfile (disk st) (original_of ''/v/lib/site-packages/qiskit'')"
    unfolding other_location using assms(1) by (simp add: isfile_def)
  then have 1: "patch_qiskit st ''/v/lib/site-packages/qiskit'' r = (None, st)" for r
    by (rule patch_no_original)
  have f: "isfile (disk st) (original_of qiskit_dir)" "isfile (disk st) (backup_of qiskit_dir)"
    using assms(2,3) by (simp_all add: isfile_def)
  have 2: "patch_qiskit st qiskit_dir True =
      (None, st\<lparr>disk := put_file (original_of qiskit_dir) c
                           (remove_file (backup_of qiskit_dir)
                              (remove_file (original_of qiskit_dir) (disk st)))\<rparr>)"
    using f(1) assms(3) by (rule restore_patched)
  have 3: "patch_qiskit st qiskit_dir False = (None, st)"
    using f by (rule patch_already_patched)
  show "patch_all st [''/v/lib/site-packages/qiskit'', qiskit_dir] True =
         (None, st\<lparr>disk := put_file (original_of qiskit_dir) c
                              (remove_file (backup_of qiskit_dir)
                                 (remove_file (original_of qiskit_dir) (disk st)))\<rparr>)"
    by (simp add: 1 2)
  show "patch_all st [''/v/lib/site-packages/qiskit'', qiskit_dir] False = (None, st)"
    by (simp add: 1 3)
qed

lemma add_patch_bad:
  assumes "''/bad'' \<notin> set (m_data st)" and "disk st ''/bad/lib'' = Some (File c)"
  shows "add_patch st ''/bad'' = Some (Some NotADirectoryError, st\<lparr>m_data := m_data st @ [''/bad'']\<rparr>)"
  using assms by (simp add: add_patch_def Let_def site_package_bad)

lemma remove_patch_bad:
  assumes "''/bad'' \<in> set (m_data st)" and "disk st ''/bad/lib'' = Some (File c)"
  shows "remove_patch st ''/bad'' =
         Some (Some NotADirectoryError,
               st\<lparr>restore_calls := restore_calls st @ [''/bad''],
                    m_data := remove1 ''/bad'' (m_data st)\<rparr>)"
  using assms by (simp add: remove_patch_def Let_def site_package_bad)

lemma example_more:
  "example_disk ''/v/lib'' = Some (Dir [''py3''])"
  "example_disk ''/v/bin/lib'' = None"
  "example_disk ''/v/lib/site-packages/qiskit/execute_function.py'' = None"
  "example_disk ''/attacker/bk-circuits'' = None"
  "example_disk ''/home'' = Some (Dir [''alice''])"
  by (simp_all add: example_disk_def)

lemma patched_more:
  "patched_disk ''/v/bin/lib'' = None"
  "patched_disk ''/home'' = Some (Dir [''alice''])"
  "patched_disk ''/home/alice/.qiskit/qiskit-ibm.json'' = None"
  "patched_disk ''/home/alice/.quantuminspire/qirc'' = None"
  by (simp_all add: patched_disk_def example_disk_def qiskit_dir_def join_def)

lemma example_sites:
  "site_package example_disk ''/v'' = Some (Inr [''/v/lib/site-packages/qiskit'', qiskit_dir])"
  "site_package example_disk ''/v/bin'' = Some (Inr [''/v/lib/site-packages/qiskit'', qiskit_dir])"
  "site_package patched_disk ''/v'' = Some (Inr [''/v/lib/site-packages/qiskit'', qiskit_dir])"
  "site_package patched_disk ''/v/bin'' = Some (Inr [''/v/lib/site-packages/qiskit'', qiskit_dir])"
  by (simp_all add: site_package_venv site_package_venv_bin example_more patched_lookups patched_more
        qiskit_dir_eq)

text \<open>
  On the example machine \<open>_add_patch\<close> of a root that reaches the library of \<open>/v\<close> patches
  it; on the patched machine it finds it patched and records the root. \<open>_remove_patch\<close> of
  such a root restores the patched library, and patches the library it finds unpatched.
\<close>

lemma add_patch_example:
  assumes "disk st = example_disk" and "cwd st = ''/attacker''"
      and "R \<notin> set (m_data st)" and "R = ''/v'' \<or> R = ''/v/bin''"
  shows "add_patch st R = Some (None, st\<lparr>m_data := m_data st @ [R], disk := patched_disk\<rparr>)"
proof -
  let ?st1 = "st\<lparr>m_data := m_data st @ [R]\<rparr>"
  have sp: "site_package (disk st) R = Some (Inr [''/v/lib/site-packages/qiskit'', qiskit_dir])"
    using assms(1,4) example_sites(1,2) by auto
  have "patch_all ?st1 [''/v/lib/site-packages/qiskit'', qiskit_dir] False =
         (None, ?st1\<lparr>disk := put_file (original_of qiskit_dir) ''malicious''
                              (put_file (backup_of qiskit_dir) ''original''
                                 (remove_file (original_of qiskit_dir) (disk ?st1)))\<rparr>)"
    using assms(1,2) by (intro patch_all_unpatched) (simp_all add: example_more example_paths example_lookups)
  then have "patch_all ?st1 [''/v/lib/site-packages/qiskit'', qiskit_dir] False =
         (None, ?st1\<lparr>disk := patched_disk\<rparr>)"
    by (simp add: assms(1) patch_example_disk)
  then show ?thesis
    using assms(3) by (simp add: add_patch_def Let_def sp)
qed

lemma add_patch_patched:
  assumes "disk st = patched_disk"
      and "R \<notin> set (m_data st)" and "R = ''/v'' \<or> R = ''/v/bin''"
  shows "add_patch st R = Some (None, st\<lparr>m_data := m_data st @ [R]\<rparr>)"
proof -
  let ?st1 = "st\<lparr>m_data := m_data st @ [R]\<rparr>"
  have sp: "site_package (disk st) R = Some (Inr [''/v/lib/site-packages/qiskit'', qiskit_dir])"
    using assms(1,3) example_sites(3,4) by auto
  have "patch_all ?st1 [''/v/lib/site-packages/qiskit'', qiskit_dir] False = (None, ?st1)"
    using assms(1) by (intro patch_all_patched(2)) (simp_all add: patched_lookups)
  then show ?thesis
    using assms(2) by (simp add: add_patch_def Let_def sp)
qed

lemma remove_patch_example:
  assumes "disk st = patched_disk"
      and "R \<in> set (m_data st)" and "R = ''/v'' \<or> R = ''/v/bin''"
  shows "remove_patch st R =
         Some (None, st\<lparr>restore_calls := restore_calls st @ [R],
                          m_data := remove1 R (m_data st), disk := example_disk\<rparr>)"
proof -
  let ?st1 = "st\<lparr>restore_calls := restore_calls st @ [R], m_data := remove1 R (m_data st)\<rparr>"
  have sp: "site_package (disk st) R = Some (Inr [''/v/lib/site-packages/qiskit'', qiskit_dir])"
    using assms(1,3) example_sites(3,4) by auto
  have "patch_all ?st1 [''/v/lib/site-packages/qiskit'', qiskit_dir] True =
         (None, ?st1\<lparr>disk := put_file (original_of qiskit_dir) ''original''
                              (remove_file (backup_of qiskit_dir)
                                 (remove_file (original_of qiskit_dir) (disk ?st1)))\<rparr>)"
    using assms(1) by (intro patch_all_patched(1)) (simp_all add: patched_lookups)
  then have "patch_all ?st1 [''/v/lib/site-packages/qiskit'', qiskit_dir] True =
         (None, ?st1\<lparr>disk := example_disk\<rparr>)"
    by (simp add: assms(1) restore_patched_disk)
  then show ?thesis
    using assms(2) by (simp add: remove_patch_def Let_def sp)
qed

lemma remove_patch_unpatched:
  assumes "disk st = example_disk" and "cwd st = ''/attacker''"
      and "R \<in> set (m_data st)" and "R = ''/v'' \<or> R = ''/v/bin''"
  shows "remove_patch st R =
         Some (None, st\<lparr>restore_calls := restore_calls st @ [R],
                          m_data := remove1 R (m_data st), disk := patched_disk\<rparr>)"
proof -
  let ?st1 = "st\<lparr>restore_calls := restore_calls st @ [R], m_data := remove1 R (m_data st)\<rparr>"
  have sp: "site_package (disk st) R = Some (Inr [''/v/lib/site-packages/qiskit'', qiskit_dir])"
    using assms(1,4) example_sites(1,2) by auto
  have "patch_all ?st1 [''/v/lib/site-packages/qiskit'', qiskit_dir] True =
         (None, ?st1\<lparr>disk := put_file (original_of qiskit_dir) ''malicious''
                              (put_file (backup_of qiskit_dir) ''original''
                                 (remove_file (original_of qiskit_dir) (disk ?st1)))\<rparr>)"
    using assms(1,2) by (intro patch_all_unpatched) (simp_all add: example_more example_paths example_lookups)
  then have "patch_all ?st1 [''/v/lib/site-packages/qiskit'', qiskit_dir] True =
         (None, ?st1\<lparr>disk := patched_disk\<rparr>)"
    by (simp add: assms(1) patch_example_disk)
  then show ?thesis
    using assms(3) by (simp add: remove_patch_def Let_def sp)
qed

lemma example_calls:
  "run_calls [AddPatch ''/v'', RemovePatch ''/v'', AddPatch ''/v'', AddPatch ''/v''] example_state
   = Some (patched_state\<lparr>m_data := [''/v''], restore_calls := [''/v'']\<rparr>)"
proof -
  let ?s1 = "example_state\<lparr>m_data := [''/v''], disk := patched_disk\<rparr>"
  let ?s2 = "example_state\<lparr>m_data := [], disk := example_disk, restore_calls := [''/v'']\<rparr>"
  let ?s3 = "example_state\<lparr>m_data := [''/v''], disk := patched_disk, restore_calls := [''/v'']\<rparr>"
  have 1: "add_patch example_state ''/v'' = Some (None, ?s1)"
    using add_patch_example [of example_state "''/v''"] by (simp add: example_state_def)
  have 2: "remove_patch ?s1 ''/v'' = Some (None, ?s2)"
    using remove_patch_example [of ?s1 "''/v''"] by (simp add: example_state_def)
  have 3: "add_patch ?s2 ''/v'' = Some (None, ?s3)"
    using add_patch_example [of ?s2 "''/v''"] by (simp add: example_state_def)
  have 4: "add_patch ?s3 ''/v'' = Some (None, ?s3)"
    by (simp add: add_patch_def)
  have "?s3 = patched_state\<lparr>m_data := [''/v''], restore_calls := [''/v'']\<rparr>"
    by (simp add: patched_state_def example_state_def)
  then show ?thesis
    using 1 2 3 4 by simp
qed

section \<open>No root is recorded twice\<close>

text \<open>
  C8. Starting from a patcher that has recorded nothing, after any sequence of calls of
  \<open>_add_patch\<close> and \<open>_remove_patch\<close> that return or raise, each root occurs at most once in
  \<open>_m_data\<close>.
\<close>

theorem patched_roots_at_most_once:
  assumes "m_data st = []" and "run_calls cs st = Some st'"
  shows "count_list (m_data st') R \<le> 1"
proof -
  have "distinct (m_data st)" using assms(1) by simp
  with assms(2) have "distinct (m_data st')" by (rule run_calls_distinct)
  then show ?thesis by (rule distinct_count_le)
qed

theorem patched_roots_at_most_once_witness:
  "m_data example_state = []
   \<and> run_calls [AddPatch ''/v'', RemovePatch ''/v'', AddPatch ''/v'', AddPatch ''/v''] example_state
       = Some (patched_state\<lparr>m_data := [''/v''], restore_calls := [''/v'']\<rparr>)
   \<and> count_list (m_data (patched_state\<lparr>m_data := [''/v''], restore_calls := [''/v'']\<rparr>)) ''/v'' \<le> 1"
proof -
  have 1: "m_data example_state = []"
    by (simp add: example_state_def)
  show ?thesis
    using patched_roots_at_most_once [OF 1 example_calls, of "''/v''"] 1 example_calls by simp
qed

section \<open>The daemon on the stuck machine\<close>

lemma stuck_lookups:
  "stuck_disk ''/bad/lib'' = Some (File [])"
  "stuck_disk ''/v/lib'' = Some (Dir [''py3''])"
  "stuck_disk ''/v/lib/site-packages/qiskit/execute_function.py'' = None"
  "stuck_disk (original_of qiskit_dir) = Some (File ''original'')"
  "stuck_disk (backup_of qiskit_dir) = None"
  "stuck_disk ''/attacker/execute_function.py'' = Some (File ''malicious'')"
  "stuck_disk ''/attacker/bk-circuits'' = None"
  "stuck_disk ''/home'' = Some (Dir [''alice''])"
  "stuck_disk ''/home/alice/.qiskit/qiskit-ibm.json'' = None"
  "stuck_disk ''/home/alice/.quantuminspire/qirc'' = None"
  by (simp_all add: stuck_disk_def example_paths)
     (simp_all add: example_disk_def)

lemma patch_stuck_disk:
  "put_file (original_of qiskit_dir) ''malicious''
     (put_file (backup_of qiskit_dir) ''original''
        (remove_file (original_of qiskit_dir) stuck_disk)) = disk exit_state"
proof (rule ext)
  fix x
  show "put_file (original_of qiskit_dir) ''malicious''
     (put_file (backup_of qiskit_dir) ''original''
        (remove_file (original_of qiskit_dir) stuck_disk)) x = disk exit_state x"
    unfolding example_paths exit_state_def stuck_state_def stuck_disk_def example_disk_def put_file_def
      remove_file_def qiskit_dir_def
    by (simp add: push_drop push_add example_basenames join_def)
qed

lemma exit_lookups:
  "disk exit_state (original_of qiskit_dir) = Some (File ''malicious'')"
  "disk exit_state (backup_of qiskit_dir) = Some (File ''original'')"
  "disk exit_state ''/bad/lib'' = Some (File [])"
  "disk exit_state ''/attacker/bk-circuits'' = None"
  by (simp_all add: exit_state_def stuck_state_def stuck_disk_def example_disk_def qiskit_dir_def join_def)

lemma scan_virtual_env:
  "scan_environ st [''VIRTUAL_ENV=/bad''] = add_patch st ''/bad''"
  "scan_environ st [''VIRTUAL_ENV=/v''] = add_patch st ''/v''"
  by simp_all

lemma report_circuits_absent:
  "disk st (dir_circuits st) = None \<Longrightarrow> report_circuits lib st = (None, st)"
  by (simp add: report_circuits_def isdir_def)

lemma token_stealer_quiet:
  assumes "d_path st = ''/home''" and "disk st ''/home'' = Some (Dir [''alice''])"
      and "disk st ''/home/alice/.qiskit/qiskit-ibm.json'' = None"
      and "disk st ''/home/alice/.quantuminspire/qirc'' = None"
      and "environ st = Map.empty"
  shows "token_stealer_run lib st = (None, st)"
proof -
  have l: "listdir (disk st) (d_path st) = Inr [''alice'']"
    using assms by (simp add: listdir_def)
  have p: "join (join ''/home'' ''alice'') (join ''.qiskit'' ''qiskit-ibm.json'') = ''/home/alice/.qiskit/qiskit-ibm.json''"
     "join (join ''/home'' ''alice'') (join ''.quantuminspire'' ''qirc'') = ''/home/alice/.quantuminspire/qirc''"
    by (simp_all add: join_def)
  have 1: "steal_file lib st ''alice'' (''IBM'', join ''.qiskit'' ''qiskit-ibm.json'', ks) = (None, st)" for ks
    using assms by (simp add: steal_file_def Let_def p isfile_def)
  have 2: "steal_file lib st ''alice'' (''QI'', join ''.quantuminspire'' ''qirc'', ks) = (None, st)" for ks
    using assms by (simp add: steal_file_def Let_def p isfile_def)
  have u: "steal_users lib st [''alice''] = (None, st)"
    by (simp add: data_entries_def 1 2)
  have e: "steal_env st env_entries = st"
    using assms(5) by (simp add: env_entries_def)
  show ?thesis
    by (simp only: token_stealer_run_def l u e sum.case prod.case option.case)
qed

lemma stuck_first_iteration:
  "processes_data stuck_state [Inr [''VIRTUAL_ENV=/bad''], Inr [''VIRTUAL_ENV=/v'']]
   = Some (None, exit_state)"
proof -
  let ?s1 = "stuck_state\<lparr>m_data := [''/bad'']\<rparr>"
  let ?s2 = "?s1\<lparr>m_data := m_data ?s1 @ [''/v'']\<rparr>"
  have 1: "add_patch stuck_state ''/bad'' = Some (Some NotADirectoryError, ?s1)"
    using add_patch_bad [of stuck_state "[]"]
    by (simp add: stuck_state_def example_state_def stuck_lookups)
  have sp: "site_package (disk ?s1) ''/v'' = Some (Inr [''/v/lib/site-packages/qiskit'', qiskit_dir])"
    by (simp add: site_package_venv qiskit_dir_eq stuck_state_def stuck_lookups)
  have "patch_all ?s2 [''/v/lib/site-packages/qiskit'', qiskit_dir] False =
         (None, ?s2\<lparr>disk := put_file (original_of qiskit_dir) ''malicious''
                              (put_file (backup_of qiskit_dir) ''original''
                                 (remove_file (original_of qiskit_dir) (disk ?s2)))\<rparr>)"
    by (rule patch_all_unpatched) (simp_all add: stuck_state_def example_state_def stuck_lookups)
  then have "patch_all ?s2 [''/v/lib/site-packages/qiskit'', qiskit_dir] False = (None, exit_state)"
    using patch_stuck_disk by (simp add: stuck_state_def) (simp add: exit_state_def stuck_state_def example_state_def)
  then have 2: "add_patch ?s1 ''/v'' = Some (None, exit_state)"
    using sp by (simp add: add_patch_def Let_def)
  show ?thesis
    by (simp only: processes_data.simps scan_virtual_env 1 2 option.case prod.case is_oserror.simps if_True)
qed

lemma stuck_run:
  "patcher_run lib stuck_ticks stuck_state = Some (Some KeyboardInterrupt, exit_state)"
proof -
  have r: "report_circuits lib exit_state = (None, exit_state)"
  proof (rule report_circuits_absent)
    have "dir_circuits exit_state = ''/attacker/bk-circuits''"
      by (simp add: exit_state_def stuck_state_def example_state_def)
    then show "disk exit_state (dir_circuits exit_state) = None"
      by (simp add: exit_lookups)
  qed
  have "run_loop lib (Suc (Suc n)) stuck_ticks stuck_state = Some (Some KeyboardInterrupt, exit_state)" for n
    by (simp only: stuck_ticks_def run_loop.simps list.case tick.case stuck_first_iteration r
        option.case prod.case list.sel)
  from this [of 178] show ?thesis
    by (simp add: patcher_run_def)
qed

lemma stuck_restore:
  "restore_state exit_state =
     Some (Some NotADirectoryError, exit_state\<lparr>restore_calls := [''/bad''], m_data := [''/v'']\<rparr>)"
proof -
  have "remove_patch exit_state ''/bad'' =
      Some (Some NotADirectoryError,
            exit_state\<lparr>restore_calls := restore_calls exit_state @ [''/bad''],
                         m_data := remove1 ''/bad'' (m_data exit_state)\<rparr>)"
    by (rule remove_patch_bad) (simp_all add: exit_lookups, simp add: exit_state_def)
  then show ?thesis
    by (simp add: restore_state_def) (simp add: exit_state_def stuck_state_def example_state_def)
qed

section \<open>Restoring on exit\<close>

text \<open>
  However the \<open>try\<close> body of the daemon ended, the \<open>finally\<close> clause runs \<open>restore_state\<close> on
  the state the body left, and leaves the state \<open>restore_state\<close> leaves.
\<close>

lemma restore_state_runs:
  "map_option snd (finally_restore how st) = map_option snd (restore_state st)"
  by (simp add: finally_restore_def split: option.splits prod.splits)

text \<open>
  C7. \<open>restore_state\<close> runs on every exit, but it does not restore every recorded root. On
  the stuck machine the patch loop records \<open>/bad\<close> (the \<open>NotADirectoryError\<close> of its
  \<open>_add_patch\<close> is caught as an \<open>OSError\<close>, after the root has been recorded) and then \<open>/v\<close>,
  which it patches. After the keyboard interrupt \<open>restore_state\<close> raises at \<open>/bad\<close>, the first
  root: \<open>_remove_patch\<close> is never called for \<open>/v\<close>, which stays recorded, and its library
  stays patched when the daemon ends.
\<close>

theorem restore_stops_at_first_failure:
  "patcher_run example_lib stuck_ticks stuck_state = Some (Some KeyboardInterrupt, exit_state)
   \<and> m_data exit_state = [''/bad'', ''/v'']
   \<and> daemon example_lib stuck_ticks stuck_state =
       Some (Some NotADirectoryError, exit_state\<lparr>restore_calls := [''/bad''], m_data := [''/v'']\<rparr>)
   \<and> disk exit_state (original_of qiskit_dir) = Some (File ''malicious'')
   \<and> disk exit_state (backup_of qiskit_dir) = Some (File ''original'')"
proof -
  have t: "token_stealer_run example_lib stuck_state = (None, stuck_state)"
    by (rule token_stealer_quiet) (simp_all add: stuck_state_def example_state_def stuck_lookups)
  have d: "daemon example_lib stuck_ticks stuck_state =
       Some (Some NotADirectoryError, exit_state\<lparr>restore_calls := [''/bad''], m_data := [''/v'']\<rparr>)"
    by (simp add: daemon_def t stuck_run finally_restore_def stuck_restore)
  have m: "m_data exit_state = [''/bad'', ''/v'']"
    by (simp add: exit_state_def)
  show ?thesis
    using stuck_run [of example_lib] d m exit_lookups(1,2) by simp
qed

text \<open>
  The restore also fails without raising. Where two recorded roots lead to one library,
  the restore of the first root puts the original back, and the restore of the second
  finds the library unpatched and patches it again (the \<open>restore\<close> flag is not read on that
  path): the daemon handles the interrupt and ends normally, with no root recorded and the
  library patched.
\<close>

lemma scan_shared:
  "scan_environ st [''PATH=/v/bin/tools:/usr/bin''] = add_patch st ''/v/bin''"
proof -
  have "dirname ''/v/bin/tools'' = ''/v/bin''"
    by (simp add: dirname_def)
  then show ?thesis
    by (cases "add_patch st ''/v/bin''") (auto split: option.splits)
qed

lemma shared_first_iteration:
  "processes_data example_state [Inr [''VIRTUAL_ENV=/v''], Inr [''PATH=/v/bin/tools:/usr/bin'']]
   = Some (None, patched_state\<lparr>m_data := [''/v'', ''/v/bin'']\<rparr>)"
proof -
  let ?s1 = "example_state\<lparr>m_data := [''/v''], disk := patched_disk\<rparr>"
  let ?s2 = "patched_state\<lparr>m_data := [''/v'', ''/v/bin'']\<rparr>"
  have 1: "add_patch example_state ''/v'' = Some (None, ?s1)"
    using add_patch_example [of example_state "''/v''"] by (simp add: example_state_def)
  have 2: "add_patch ?s1 ''/v/bin'' = Some (None, ?s2)"
    using add_patch_patched [of ?s1 "''/v/bin''"] by (simp add: patched_state_def example_state_def)
  show ?thesis
    by (simp only: processes_data.simps scan_virtual_env scan_shared 1 2 option.case prod.case)
qed

lemma shared_restore:
  "restore_state (patched_state\<lparr>m_data := [''/v'', ''/v/bin'']\<rparr>)
   = Some (None, patched_state\<lparr>restore_calls := [''/v'', ''/v/bin'']\<rparr>)"
proof -
  let ?s2 = "patched_state\<lparr>m_data := [''/v'', ''/v/bin'']\<rparr>"
  let ?s3 = "example_state\<lparr>m_data := [''/v/bin''], restore_calls := [''/v'']\<rparr>"
  let ?s4 = "patched_state\<lparr>restore_calls := [''/v'', ''/v/bin'']\<rparr>"
  have 1: "remove_patch ?s2 ''/v'' = Some (None, ?s3)"
    using remove_patch_example [of ?s2 "''/v''"] by (simp add: patched_state_def example_state_def)
  have 2: "remove_patch ?s3 ''/v/bin'' = Some (None, ?s4)"
    using remove_patch_unpatched [of ?s3 "''/v/bin''"] by (simp add: patched_state_def example_state_def)
  have "remove_each [''/v'', ''/v/bin''] ?s2 = Some (None, ?s4)"
    by (simp only: remove_each.simps 1 2 option.case prod.case)
  then show ?thesis
    by (simp add: restore_state_def)
qed

lemma restore_repatches_shared_library:
  "daemon example_lib shared_ticks example_state
     = Some (None, patched_state\<lparr>restore_calls := [''/v'', ''/v/bin'']\<rparr>)
   \<and> m_data (patched_state\<lparr>restore_calls := [''/v'', ''/v/bin'']\<rparr>) = []
   \<and> disk patched_state (original_of qiskit_dir) = Some (File ''malicious'')
   \<and> disk patched_state (backup_of qiskit_dir) = Some (File ''original'')"
proof -
  let ?s2 = "patched_state\<lparr>m_data := [''/v'', ''/v/bin'']\<rparr>"
  have t: "token_stealer_run example_lib example_state = (None, example_state)"
    by (rule token_stealer_quiet) (simp_all add: example_state_def example_disk_def)
  have r: "report_circuits example_lib ?s2 = (None, ?s2)"
    by (rule report_circuits_absent) (simp add: patched_state_def example_state_def patched_lookups)
  have "run_loop example_lib (Suc (Suc n)) shared_ticks example_state = Some (Some KeyboardInterrupt, ?s2)" for n
    by (simp only: shared_ticks_def run_loop.simps list.case tick.case shared_first_iteration r
        option.case prod.case list.sel)
  from this [of 178] have p: "patcher_run example_lib shared_ticks example_state = Some (Some KeyboardInterrupt, ?s2)"
    by (simp add: patcher_run_def)
  have d: "daemon example_lib shared_ticks example_state
     = Some (None, patched_state\<lparr>restore_calls := [''/v'', ''/v/bin'']\<rparr>)"
    by (simp add: daemon_def t p finally_restore_def shared_restore)
  have m: "m_data (patched_state\<lparr>restore_calls := [''/v'', ''/v/bin'']\<rparr>) = []"
    by (simp add: patched_state_def example_state_def)
  show ?thesis
    using d m by (simp add: patched_state_def patched_lookups)
qed

section \<open>The circuit watcher: \<open>_report_circuits\<close>\<close>

lemma readable_text:
  "readable lib fs p \<Longrightarrow> read_text (decode_utf8 lib) fs p = Inr (file_text lib fs p)"
  by (auto simp: readable_def file_text_def read_text_def split: option.splits node.splits)

lemma readable_isfile: "readable lib fs p \<Longrightarrow> isfile fs p"
  by (auto simp: readable_def isfile_def split: option.splits node.splits)

lemma report_loop_all:
  assumes "list_all (\<lambda>n. readable lib (disk st) (join (dir_circuits st) n)) names"
  shows "report_loop lib st names acc =
         (None, st\<lparr>sent := sent st @ map (circuit_message lib st) names\<rparr>,
          acc @ map (join (dir_circuits st)) names)"
  using assms
proof (induction names arbitrary: st acc)
  case Nil
  then show ?case by simp
next
  case (Cons n names)
  let ?p = "join (dir_circuits st) n"
  let ?c = "file_text lib (disk st) ?p"
  from Cons.prems have c: "read_text (decode_utf8 lib) (disk st) ?p = Inr ?c"
    by (simp add: readable_text)
  let ?st1 = "send st ''/circuit'' (JObj [(''circuit'', JStr ?c)])"
  have same: "disk ?st1 = disk st" "dir_circuits ?st1 = dir_circuits st"
    by (simp_all add: send_def)
  have cm: "circuit_message lib ?st1 = circuit_message lib st"
    by (simp add: circuit_message_def fun_eq_iff same)
  from Cons.prems have "list_all (\<lambda>n. readable lib (disk ?st1) (join (dir_circuits ?st1) n)) names"
    by (simp add: same)
  from Cons.IH [OF this, of "acc @ [?p]"]
  have ih: "report_loop lib ?st1 names (acc @ [?p]) =
         (None, ?st1\<lparr>sent := sent ?st1 @ map (circuit_message lib st) names\<rparr>,
          (acc @ [?p]) @ map (join (dir_circuits st)) names)"
    by (simp add: cm same)
  have m: "circuit_message lib st n = (''/circuit'', JObj [(''circuit'', JStr ?c)])"
    by (simp add: circuit_message_def)
  have "report_loop lib st (n # names) acc = report_loop lib ?st1 names (acc @ [?p])"
    by (simp add: Let_def c)
  then show ?case
    by (simp add: ih m) (simp add: send_def)
qed

lemma report_loop_fail:
  assumes "list_all (\<lambda>n. readable lib (disk st) (join (dir_circuits st) n)) pre"
      and "read_text (decode_utf8 lib) (disk st) (join (dir_circuits st) bad) = Inl e"
  shows "report_loop lib st (pre @ bad # post) acc =
         (Some e, st\<lparr>sent := sent st @ map (circuit_message lib st) pre\<rparr>,
          acc @ map (join (dir_circuits st)) pre)"
  using assms
proof (induction pre arbitrary: st acc)
  case Nil
  then show ?case by (simp add: Let_def)
next
  case (Cons n pre)
  let ?p = "join (dir_circuits st) n"
  let ?c = "file_text lib (disk st) ?p"
  from Cons.prems(1) have c: "read_text (decode_utf8 lib) (disk st) ?p = Inr ?c"
    by (simp add: readable_text)
  let ?st1 = "send st ''/circuit'' (JObj [(''circuit'', JStr ?c)])"
  have same: "disk ?st1 = disk st" "dir_circuits ?st1 = dir_circuits st"
    by (simp_all add: send_def)
  have cm: "circuit_message lib ?st1 = circuit_message lib st"
    by (simp add: circuit_message_def fun_eq_iff same)
  from Cons.prems have 1: "list_all (\<lambda>n. readable lib (disk ?st1) (join (dir_circuits ?st1) n)) pre"
    and 2: "read_text (decode_utf8 lib) (disk ?st1) (join (dir_circuits ?st1) bad) = Inl e"
    by (simp_all add: same)
  from Cons.IH [OF 1 2, of "acc @ [?p]"]
  have ih: "report_loop lib ?st1 (pre @ bad # post) (acc @ [?p]) =
         (Some e, ?st1\<lparr>sent := sent ?st1 @ map (circuit_message lib st) pre\<rparr>,
          (acc @ [?p]) @ map (join (dir_circuits st)) pre)"
    by (simp add: cm same)
  have m: "circuit_message lib st n = (''/circuit'', JObj [(''circuit'', JStr ?c)])"
    by (simp add: circuit_message_def)
  have "report_loop lib st ((n # pre) @ bad # post) acc = report_loop lib ?st1 (pre @ bad # post) (acc @ [?p])"
    by (simp add: Let_def c)
  then show ?case
    by (simp add: ih m) (simp add: send_def)
qed

lemma removed_Nil: "removed [] fs = fs"
  by (auto simp: removed_def fun_eq_iff split: option.splits node.splits)

lemma removed_Cons: "removed ps (remove_file p fs) = removed (p # ps) fs"
  by (auto simp: removed_def remove_file_def drop_entry_def fun_eq_iff
           split: option.splits node.splits intro!: filter_cong)

lemma unlink_all_files:
  assumes "distinct ps" and "list_all (isfile (disk st)) ps"
  shows "unlink_all st ps = (None, st\<lparr>disk := removed ps (disk st)\<rparr>)"
  using assms
proof (induction ps arbitrary: st)
  case Nil
  then show ?case by (simp add: removed_Nil)
next
  case (Cons p ps)
  from Cons.prems(2) obtain c where c: "disk st p = Some (File c)"
    by (auto simp: isfile_iff)
  let ?st1 = "st\<lparr>disk := remove_file p (disk st)\<rparr>"
  have u: "unlink (disk st) p = Inr (remove_file p (disk st))"
    by (simp add: unlink_def c)
  from Cons.prems have "p \<notin> set ps" by simp
  with Cons.prems(2) have l: "list_all (isfile (disk ?st1)) ps"
    by (auto simp: list_all_iff isfile_remove_file)
  from Cons.prems(1) have "distinct ps" by simp
  then have ih: "unlink_all ?st1 ps = (None, ?st1\<lparr>disk := removed ps (disk ?st1)\<rparr>)"
    using l by (rule Cons.IH)
  with u show ?case by (simp add: removed_Cons)
qed

text \<open>After the files of a listing have been removed the directory reports nothing.\<close>

lemma removed_listing:
  assumes "fs d = Some (Dir names)" and "list_all (\<lambda>n. isfile fs (join d n)) names"
  shows "listdir (removed (map (join d) names) fs) d = Inr []"
proof -
  have "d \<notin> set (map (join d) names)"
    using assms by (auto simp: list_all_iff isfile_def)
  moreover have "filter (\<lambda>n. join d n \<notin> set (map (join d) names)) names = []"
    by (auto simp: filter_empty_conv)
  ultimately show ?thesis
    using assms(1) by (simp add: listdir_def removed_def)
qed

text \<open>
  C5. One pass of the watcher. Where every entry of the backup directory is a regular
  file that reads as UTF-8 text (the entries under distinct paths), the pass sends the
  text of each as \<open>{"circuit": content}\<close> to \<open>/circuit\<close>, in listing order, and then removes
  every one of them: nothing stands at their paths and the directory reports no name.
  Where reading an entry fails (a subdirectory, or a file whose bytes do not decode), the
  pass raises with the files before it sent, the rest unsent, and nothing removed: the
  unlinking loop starts only after every file has been read and sent. Where the backup
  directory is absent, the pass does nothing and returns.
\<close>

theorem circuit_watcher_pass:
  "(disk st (dir_circuits st) = Some (Dir names)
      \<and> list_all (\<lambda>n. readable lib (disk st) (join (dir_circuits st) n)) names
      \<and> distinct (map (join (dir_circuits st)) names)
    \<longrightarrow> report_circuits lib st =
          (None, st\<lparr>sent := sent st @ map (circuit_message lib st) names,
                     disk := removed (map (join (dir_circuits st)) names) (disk st)\<rparr>)
        \<and> list_all (\<lambda>n. \<not> path_exists (removed (map (join (dir_circuits st)) names) (disk st))
                             (join (dir_circuits st) n)) names
        \<and> listdir (removed (map (join (dir_circuits st)) names) (disk st)) (dir_circuits st) = Inr [])
   \<and> (disk st (dir_circuits st) = Some (Dir (pre @ bad # post))
      \<and> list_all (\<lambda>n. readable lib (disk st) (join (dir_circuits st) n)) pre
      \<and> read_text (decode_utf8 lib) (disk st) (join (dir_circuits st) bad) = Inl e
    \<longrightarrow> report_circuits lib st = (Some e, st\<lparr>sent := sent st @ map (circuit_message lib st) pre\<rparr>))
   \<and> (\<not> isdir (disk st) (dir_circuits st) \<longrightarrow> report_circuits lib st = (None, st))"
proof (intro conjI impI)
  assume a: "disk st (dir_circuits st) = Some (Dir names)
      \<and> list_all (\<lambda>n. readable lib (disk st) (join (dir_circuits st) n)) names
      \<and> distinct (map (join (dir_circuits st)) names)"
  let ?st1 = "st\<lparr>sent := sent st @ map (circuit_message lib st) names\<rparr>"
  let ?ps = "map (join (dir_circuits st)) names"
  from a have l: "report_loop lib st names [] = (None, ?st1, ?ps)"
    by (simp add: report_loop_all)
  from a have f: "list_all (\<lambda>n. isfile (disk st) (join (dir_circuits st) n)) names"
    by (auto simp: list_all_iff readable_isfile)
  then have "list_all (isfile (disk ?st1)) ?ps"
    by (simp add: list_all_iff)
  with a have "unlink_all ?st1 ?ps = (None, ?st1\<lparr>disk := removed ?ps (disk ?st1)\<rparr>)"
    by (intro unlink_all_files) simp_all
  with a l show "report_circuits lib st =
          (None, st\<lparr>sent := sent st @ map (circuit_message lib st) names,
                     disk := removed ?ps (disk st)\<rparr>)"
    by (simp add: report_circuits_def isdir_def listdir_def)
  show "list_all (\<lambda>n. \<not> path_exists (removed ?ps (disk st)) (join (dir_circuits st) n)) names"
    by (simp add: list_all_iff path_exists_def removed_def)
  from a f show "listdir (removed ?ps (disk st)) (dir_circuits st) = Inr []"
    by (intro removed_listing) simp_all
next
  assume a: "disk st (dir_circuits st) = Some (Dir (pre @ bad # post))
      \<and> list_all (\<lambda>n. readable lib (disk st) (join (dir_circuits st) n)) pre
      \<and> read_text (decode_utf8 lib) (disk st) (join (dir_circuits st) bad) = Inl e"
  then have "report_loop lib st (pre @ bad # post) [] =
      (Some e, st\<lparr>sent := sent st @ map (circuit_message lib st) pre\<rparr>, [] @ map (join (dir_circuits st)) pre)"
    by (intro report_loop_fail) simp_all
  with a show "report_circuits lib st = (Some e, st\<lparr>sent := sent st @ map (circuit_message lib st) pre\<rparr>)"
    by (simp add: report_circuits_def isdir_def listdir_def)
next
  assume "\<not> isdir (disk st) (dir_circuits st)"
  then show "report_circuits lib st = (None, st)"
    by (simp add: report_circuits_def)
qed

text \<open>A second pass then finds the directory empty and does nothing.\<close>

lemma watcher_second_pass:
  assumes "report_circuits lib st = (None, st')"
      and "disk st (dir_circuits st) = Some (Dir names)"
      and "list_all (\<lambda>n. readable lib (disk st) (join (dir_circuits st) n)) names"
      and "distinct (map (join (dir_circuits st)) names)"
  shows "report_circuits lib st' = (None, st')"
proof -
  let ?ps = "map (join (dir_circuits st)) names"
  have f: "list_all (\<lambda>n. isfile (disk st) (join (dir_circuits st) n)) names"
    using assms(3) by (auto simp: list_all_iff readable_isfile)
  then have "list_all (isfile (disk (st\<lparr>sent := sent st @ map (circuit_message lib st) names\<rparr>))) ?ps"
    by (simp add: list_all_iff)
  with assms(4)
  have "unlink_all (st\<lparr>sent := sent st @ map (circuit_message lib st) names\<rparr>) ?ps =
          (None, st\<lparr>sent := sent st @ map (circuit_message lib st) names, disk := removed ?ps (disk st)\<rparr>)"
    using unlink_all_files [of ?ps "st\<lparr>sent := sent st @ map (circuit_message lib st) names\<rparr>"] by simp
  with assms(1,2,3) have st': "st' = st\<lparr>sent := sent st @ map (circuit_message lib st) names,
                     disk := removed ?ps (disk st)\<rparr>"
    by (simp add: report_circuits_def isdir_def listdir_def report_loop_all)
  have "listdir (removed ?ps (disk st)) (dir_circuits st) = Inr []"
    using assms(2) f by (rule removed_listing)
  then have "listdir (disk st') (dir_circuits st') = Inr []"
    by (simp add: st')
  then show ?thesis
    by (auto simp: report_circuits_def)
qed

lemma circuit_paths:
  "join ''/attacker/bk-circuits'' ''a.qasm'' = ''/attacker/bk-circuits/a.qasm''"
  "join ''/attacker/bk-circuits'' ''b.qasm'' = ''/attacker/bk-circuits/b.qasm''"
  "join ''/attacker/bk-circuits'' ''sub'' = ''/attacker/bk-circuits/sub''"
  by (simp_all add: join_def)

lemma circuits_fields:
  "dir_circuits circuits_state = ''/attacker/bk-circuits''"
  "dir_circuits blocked_state = ''/attacker/bk-circuits''"
  "dir_circuits garbled_state = ''/attacker/bk-circuits''"
  "dir_circuits example_state = ''/attacker/bk-circuits''"
  "sent circuits_state = []" "sent blocked_state = []" "sent garbled_state = []"
  by (simp_all add: circuits_state_def blocked_state_def garbled_state_def example_state_def)

lemma circuits_lookups:
  "disk circuits_state ''/attacker/bk-circuits'' = Some (Dir [''a.qasm'', ''b.qasm''])"
  "disk circuits_state ''/attacker/bk-circuits/a.qasm'' = Some (File ''h q[0];'')"
  "disk circuits_state ''/attacker/bk-circuits/b.qasm'' = Some (File (''x q[1];'' @ [CHR 0x0D, CHR 0x0A]))"
  by (simp_all add: circuits_state_def)

lemma blocked_lookups:
  "disk blocked_state ''/attacker/bk-circuits'' = Some (Dir [''a.qasm'', ''sub'', ''b.qasm''])"
  "disk blocked_state ''/attacker/bk-circuits/a.qasm'' = Some (File ''h q[0];'')"
  "disk blocked_state ''/attacker/bk-circuits/sub'' = Some (Dir [])"
  by (simp_all add: blocked_state_def)

lemma garbled_lookups:
  "disk garbled_state ''/attacker/bk-circuits'' = Some (Dir [''a.qasm'', ''b.qasm''])"
  "disk garbled_state ''/attacker/bk-circuits/a.qasm'' = Some (File ''h q[0];'')"
  "disk garbled_state ''/attacker/bk-circuits/b.qasm'' = Some (File [CHR 0xFF])"
  by (simp_all add: garbled_state_def)

lemma example_texts:
  "fs p = Some (File ''h q[0];'') \<Longrightarrow> read_text (decode_utf8 example_lib) fs p = Inr ''h q[0];''"
  "fs p = Some (File (''x q[1];'' @ [CHR 0x0D, CHR 0x0A])) \<Longrightarrow>
     read_text (decode_utf8 example_lib) fs p = Inr (''x q[1];'' @ [CHR 0x0A])"
  "fs p = Some (File [CHR 0xFF]) \<Longrightarrow> read_text (decode_utf8 example_lib) fs p = Inl ValueError"
  by (simp_all add: read_text_def example_lib_def)

text \<open>The disk of the example machine with the two circuits removed.\<close>

lemma circuits_removed:
  "removed [''/attacker/bk-circuits/a.qasm'', ''/attacker/bk-circuits/b.qasm''] (disk circuits_state)
   = example_disk(''/attacker'' \<mapsto> Dir [''execute_function.py'', ''bk-circuits''],
                  ''/attacker/bk-circuits'' \<mapsto> Dir [])"
proof (rule ext)
  fix x
  show "removed [''/attacker/bk-circuits/a.qasm'', ''/attacker/bk-circuits/b.qasm''] (disk circuits_state) x
   = (example_disk(''/attacker'' \<mapsto> Dir [''execute_function.py'', ''bk-circuits''],
                  ''/attacker/bk-circuits'' \<mapsto> Dir [])) x"
    unfolding removed_def circuits_state_def example_state_def example_disk_def
    by (simp add: join_def)
qed

theorem circuit_watcher_pass_witness:
  "report_circuits example_lib circuits_state =
     (None, circuits_state
        \<lparr>sent := [(''/circuit'', JObj [(''circuit'', JStr ''h q[0];'')]),
                  (''/circuit'', JObj [(''circuit'', JStr (''x q[1];'' @ [CHR 0x0A]))])],
         disk := example_disk(''/attacker'' \<mapsto> Dir [''execute_function.py'', ''bk-circuits''],
                              ''/attacker/bk-circuits'' \<mapsto> Dir [])\<rparr>)
   \<and> read_text (decode_utf8 example_lib) (disk blocked_state) ''/attacker/bk-circuits/sub''
       = Inl IsADirectoryError
   \<and> report_circuits example_lib blocked_state =
       (Some IsADirectoryError,
        blocked_state\<lparr>sent := [(''/circuit'', JObj [(''circuit'', JStr ''h q[0];'')])]\<rparr>)
   \<and> read_text (decode_utf8 example_lib) (disk garbled_state) ''/attacker/bk-circuits/b.qasm''
       = Inl ValueError
   \<and> report_circuits example_lib garbled_state =
       (Some ValueError,
        garbled_state\<lparr>sent := [(''/circuit'', JObj [(''circuit'', JStr ''h q[0];'')])]\<rparr>)
   \<and> \<not> isdir (disk example_state) (dir_circuits example_state)
   \<and> report_circuits example_lib example_state = (None, example_state)"
proof -
  have ra: "readable example_lib (disk circuits_state) ''/attacker/bk-circuits/a.qasm''"
      "readable example_lib (disk circuits_state) ''/attacker/bk-circuits/b.qasm''"
      "readable example_lib (disk blocked_state) ''/attacker/bk-circuits/a.qasm''"
      "readable example_lib (disk garbled_state) ''/attacker/bk-circuits/a.qasm''"
    by (simp_all add: readable_def example_lib_def circuits_lookups blocked_lookups garbled_lookups)
  have 1: "disk circuits_state (dir_circuits circuits_state) = Some (Dir [''a.qasm'', ''b.qasm''])
      \<and> list_all (\<lambda>n. readable example_lib (disk circuits_state) (join (dir_circuits circuits_state) n))
           [''a.qasm'', ''b.qasm'']
      \<and> distinct (map (join (dir_circuits circuits_state)) [''a.qasm'', ''b.qasm''])"
    by (simp add: circuits_fields circuit_paths circuits_lookups ra)
  have m1: "circuit_message example_lib circuits_state ''a.qasm'' = (''/circuit'', JObj [(''circuit'', JStr ''h q[0];'')])"
    "circuit_message example_lib circuits_state ''b.qasm'' =
       (''/circuit'', JObj [(''circuit'', JStr (''x q[1];'' @ [CHR 0x0A]))])"
    by (simp_all add: circuit_message_def circuits_fields circuit_paths file_text_def example_lib_def circuits_lookups)
  have r: "read_text (decode_utf8 example_lib) (disk blocked_state) ''/attacker/bk-circuits/sub''
       = Inl IsADirectoryError"
    by (simp add: read_text_def blocked_lookups)
  have 2: "disk blocked_state (dir_circuits blocked_state) = Some (Dir ([''a.qasm''] @ ''sub'' # [''b.qasm'']))
      \<and> list_all (\<lambda>n. readable example_lib (disk blocked_state) (join (dir_circuits blocked_state) n)) [''a.qasm'']
      \<and> read_text (decode_utf8 example_lib) (disk blocked_state) (join (dir_circuits blocked_state) ''sub'')
          = Inl IsADirectoryError"
    by (simp add: circuits_fields circuit_paths blocked_lookups ra r)
  have m2: "circuit_message example_lib blocked_state ''a.qasm'' = (''/circuit'', JObj [(''circuit'', JStr ''h q[0];'')])"
    by (simp add: circuit_message_def circuits_fields circuit_paths file_text_def example_lib_def blocked_lookups)
  have g: "read_text (decode_utf8 example_lib) (disk garbled_state) ''/attacker/bk-circuits/b.qasm''
       = Inl ValueError"
    by (simp add: example_texts garbled_lookups)
  have 4: "disk garbled_state (dir_circuits garbled_state) = Some (Dir ([''a.qasm''] @ ''b.qasm'' # []))
      \<and> list_all (\<lambda>n. readable example_lib (disk garbled_state) (join (dir_circuits garbled_state) n)) [''a.qasm'']
      \<and> read_text (decode_utf8 example_lib) (disk garbled_state) (join (dir_circuits garbled_state) ''b.qasm'')
          = Inl ValueError"
    by (simp add: circuits_fields circuit_paths garbled_lookups ra g)
  have m4: "circuit_message example_lib garbled_state ''a.qasm'' = (''/circuit'', JObj [(''circuit'', JStr ''h q[0];'')])"
    by (simp add: circuit_message_def circuits_fields circuit_paths file_text_def example_lib_def garbled_lookups)
  have 3: "\<not> isdir (disk example_state) (dir_circuits example_state)"
    by (simp add: isdir_def circuits_fields) (simp add: example_state_def example_more)
  note w = circuit_watcher_pass [of circuits_state "[''a.qasm'', ''b.qasm'']" example_lib "[]" "[]" "[]" KeyError,
      THEN conjunct1, THEN mp, OF 1, THEN conjunct1]
    circuit_watcher_pass [of blocked_state "[]" example_lib "[''a.qasm'']" "''sub''" "[''b.qasm'']" IsADirectoryError,
      THEN conjunct2, THEN conjunct1, THEN mp, OF 2]
    circuit_watcher_pass [of garbled_state "[]" example_lib "[''a.qasm'']" "''b.qasm''" "[]" ValueError,
      THEN conjunct2, THEN conjunct1, THEN mp, OF 4]
    circuit_watcher_pass [of example_state "[]" example_lib "[]" "[]" "[]" KeyError,
      THEN conjunct2, THEN conjunct2, THEN mp, OF 3]
  show ?thesis
    using w r g 3 by (simp add: m1 m2 m4 circuits_fields circuit_paths circuits_removed)
qed

section \<open>The token stealer: environment variables\<close>

lemma steal_vars_sends:
  "steal_vars st key names =
     st\<lparr>sent := sent st @ map (\<lambda>v. token_message key (JStr v)) (env_values (environ st) names)\<rparr>"
proof (induction names arbitrary: st)
  case Nil
  then show ?case by (simp add: env_values_def List.map_filter_simps)
next
  case (Cons n names)
  show ?case
  proof (cases "environ st n")
    case None
    then show ?thesis
      by (simp add: Cons.IH env_values_def List.map_filter_simps)
  next
    case (Some v)
    show ?thesis
    proof (cases "v = []")
      case True
      with Some show ?thesis
        by (simp add: Cons.IH env_values_def List.map_filter_simps)
    next
      case False
      with Some show ?thesis
        by (simp add: Cons.IH env_values_def List.map_filter_simps)
    qed
  qed
qed

lemma steal_env_sends:
  "steal_env st env_entries =
     st\<lparr>sent := sent st @ map (\<lambda>v. token_message ''IonQ'' (JStr v))
        (env_values (environ st) [''IONQ_API_KEY'', ''IONQ_API_TOKEN'', ''QISKIT_IONQ_API_TOKEN''])\<rparr>"
  by (simp add: env_entries_def steal_vars_sends)

lemma steal_file_environ: "environ (snd (steal_file lib st user entry)) = environ st"
  by (cases entry) (simp add: steal_file_def Let_def split: sum.splits option.splits)

lemma steal_user_environ: "environ (snd (steal_user lib st user entries)) = environ st"
proof (induction entries arbitrary: st)
  case (Cons entry entries)
  show ?case
  proof (cases "steal_file lib st user entry")
    case (Pair e st1)
    then have "environ st1 = environ st"
      using steal_file_environ [of lib st user entry] by simp
    with Pair Cons.IH [of st1] show ?thesis
      by (cases e) simp_all
  qed
qed simp

lemma steal_users_environ: "environ (snd (steal_users lib st users)) = environ st"
proof (induction users arbitrary: st)
  case (Cons user users)
  show ?case
  proof (cases "steal_user lib st user data_entries")
    case (Pair e st1)
    then have "environ st1 = environ st"
      using steal_user_environ [of lib st user data_entries] by simp
    with Pair Cons.IH [of st1] show ?thesis
      by (cases e) simp_all
  qed
qed simp

text \<open>
  C3 (as amended). Once the directory phase of \<open>run\<close> has returned, the environment phase
  sends one \<open>/token\<close> message for IonQ for every variable of the list that is set and not
  empty, in the declared order, and \<open>run\<close> returns. With \<open>IONQ_API_KEY\<close> unset,
  \<open>IONQ_API_TOKEN\<close> set to \<open>xyz\<close> and \<open>QISKIT_IONQ_API_TOKEN\<close> unset or empty, that is exactly
  one message, carrying \<open>xyz\<close>.
\<close>

theorem env_lookup_sends_every_hit:
  "(listdir (disk st) (d_path st) = Inr users \<and> steal_users lib st users = (None, st1)
    \<longrightarrow> token_stealer_run lib st =
          (None, st1\<lparr>sent := sent st1 @ map (\<lambda>v. token_message ''IonQ'' (JStr v))
             (env_values (environ st) [''IONQ_API_KEY'', ''IONQ_API_TOKEN'', ''QISKIT_IONQ_API_TOKEN''])\<rparr>))
   \<and> (environ st ''IONQ_API_KEY'' = None \<and> environ st ''IONQ_API_TOKEN'' = Some ''xyz''
      \<and> (environ st ''QISKIT_IONQ_API_TOKEN'' = None \<or> environ st ''QISKIT_IONQ_API_TOKEN'' = Some [])
    \<longrightarrow> env_values (environ st) [''IONQ_API_KEY'', ''IONQ_API_TOKEN'', ''QISKIT_IONQ_API_TOKEN'']
          = [''xyz''])"
proof (intro conjI impI)
  assume a: "listdir (disk st) (d_path st) = Inr users \<and> steal_users lib st users = (None, st1)"
  then have "environ st1 = environ st"
    using steal_users_environ [of lib st users] by simp
  with a show "token_stealer_run lib st =
          (None, st1\<lparr>sent := sent st1 @ map (\<lambda>v. token_message ''IonQ'' (JStr v))
             (env_values (environ st) [''IONQ_API_KEY'', ''IONQ_API_TOKEN'', ''QISKIT_IONQ_API_TOKEN''])\<rparr>)"
    by (simp add: token_stealer_run_def steal_env_sends)
next
  assume "environ st ''IONQ_API_KEY'' = None \<and> environ st ''IONQ_API_TOKEN'' = Some ''xyz''
      \<and> (environ st ''QISKIT_IONQ_API_TOKEN'' = None \<or> environ st ''QISKIT_IONQ_API_TOKEN'' = Some [])"
  then show "env_values (environ st) [''IONQ_API_KEY'', ''IONQ_API_TOKEN'', ''QISKIT_IONQ_API_TOKEN''] = [''xyz'']"
    by (auto simp: env_values_def List.map_filter_simps)
qed

lemma steal_users_quiet:
  assumes "d_path st = ''/home''"
      and "disk st ''/home/alice/.qiskit/qiskit-ibm.json'' = None"
      and "disk st ''/home/alice/.quantuminspire/qirc'' = None"
  shows "steal_users lib st [''alice''] = (None, st)"
proof -
  have p: "join (join ''/home'' ''alice'') (join ''.qiskit'' ''qiskit-ibm.json'') = ''/home/alice/.qiskit/qiskit-ibm.json''"
     "join (join ''/home'' ''alice'') (join ''.quantuminspire'' ''qirc'') = ''/home/alice/.quantuminspire/qirc''"
    by (simp_all add: join_def)
  have 1: "steal_file lib st ''alice'' (''IBM'', join ''.qiskit'' ''qiskit-ibm.json'', ks) = (None, st)" for ks
    using assms by (simp add: steal_file_def Let_def p isfile_def)
  have 2: "steal_file lib st ''alice'' (''QI'', join ''.quantuminspire'' ''qirc'', ks) = (None, st)" for ks
    using assms by (simp add: steal_file_def Let_def p isfile_def)
  show ?thesis
    by (simp add: data_entries_def 1 2)
qed

lemma example_home:
  "example_disk ''/home/alice/.qiskit/qiskit-ibm.json'' = None"
  "example_disk ''/home/alice/.quantuminspire/qirc'' = None"
  by (simp_all add: example_disk_def)

theorem env_lookup_sends_every_hit_witness:
  "listdir (disk one_variable_state) (d_path one_variable_state) = Inr [''alice'']
   \<and> steal_users example_lib one_variable_state [''alice''] = (None, one_variable_state)
   \<and> environ one_variable_state ''IONQ_API_KEY'' = None
   \<and> environ one_variable_state ''IONQ_API_TOKEN'' = Some ''xyz''
   \<and> environ one_variable_state ''QISKIT_IONQ_API_TOKEN'' = None
   \<and> token_stealer_run example_lib one_variable_state =
       (None, one_variable_state
          \<lparr>sent := [(''/token'', JObj [(''provider'', JStr ''IonQ''), (''token'', JStr ''xyz'')])]\<rparr>)"
proof -
  have l: "listdir (disk one_variable_state) (d_path one_variable_state) = Inr [''alice'']"
    by (simp add: one_variable_state_def example_state_def listdir_def example_more)
  have u: "steal_users example_lib one_variable_state [''alice''] = (None, one_variable_state)"
    by (rule steal_users_quiet) (simp_all add: one_variable_state_def example_state_def example_home)
  have e: "environ one_variable_state ''IONQ_API_KEY'' = None"
      "environ one_variable_state ''IONQ_API_TOKEN'' = Some ''xyz''"
      "environ one_variable_state ''QISKIT_IONQ_API_TOKEN'' = None"
    by (simp_all add: one_variable_state_def)
  have s: "sent one_variable_state = []"
    by (simp add: one_variable_state_def example_state_def)
  note t = env_lookup_sends_every_hit [of one_variable_state "[''alice'']" example_lib one_variable_state]
  from t l u have 1: "token_stealer_run example_lib one_variable_state =
          (None, one_variable_state\<lparr>sent := sent one_variable_state @ map (\<lambda>v. token_message ''IonQ'' (JStr v))
             (env_values (environ one_variable_state) [''IONQ_API_KEY'', ''IONQ_API_TOKEN'', ''QISKIT_IONQ_API_TOKEN''])\<rparr>)"
    by blast
  from t e have 2: "env_values (environ one_variable_state) [''IONQ_API_KEY'', ''IONQ_API_TOKEN'', ''QISKIT_IONQ_API_TOKEN''] = [''xyz'']"
    by blast
  show ?thesis
    using l u e 1 by (simp add: 2 s token_message_def)
qed

text \<open>
  C3 as stated fails: the loop over the variables has no \<open>break\<close>. With \<open>IONQ_API_KEY\<close>
  unset, \<open>IONQ_API_TOKEN\<close> set to \<open>xyz\<close> and \<open>QISKIT_IONQ_API_TOKEN\<close> set to \<open>abc\<close>, two
  \<open>/token\<close> messages are sent for IonQ.
\<close>

theorem env_lookup_sends_later_variables:
  "environ two_variables_state ''IONQ_API_KEY'' = None
   \<and> environ two_variables_state ''IONQ_API_TOKEN'' = Some ''xyz''
   \<and> token_stealer_run example_lib two_variables_state =
       (None, two_variables_state
          \<lparr>sent := [(''/token'', JObj [(''provider'', JStr ''IonQ''), (''token'', JStr ''xyz'')]),
                    (''/token'', JObj [(''provider'', JStr ''IonQ''), (''token'', JStr ''abc'')])]\<rparr>)"
proof -
  have l: "listdir (disk two_variables_state) (d_path two_variables_state) = Inr [''alice'']"
    by (simp add: two_variables_state_def example_state_def listdir_def example_more)
  have u: "steal_users example_lib two_variables_state [''alice''] = (None, two_variables_state)"
    by (rule steal_users_quiet) (simp_all add: two_variables_state_def example_state_def example_home)
  have e: "environ two_variables_state ''IONQ_API_KEY'' = None"
      "environ two_variables_state ''IONQ_API_TOKEN'' = Some ''xyz''"
      "environ two_variables_state ''QISKIT_IONQ_API_TOKEN'' = Some ''abc''"
    by (simp_all add: two_variables_state_def)
  have s: "sent two_variables_state = []"
    by (simp add: two_variables_state_def example_state_def)
  have v: "env_values (environ two_variables_state) [''IONQ_API_KEY'', ''IONQ_API_TOKEN'', ''QISKIT_IONQ_API_TOKEN''] = [''xyz'', ''abc'']"
    by (simp add: env_values_def List.map_filter_simps e)
  have "token_stealer_run example_lib two_variables_state =
       (None, two_variables_state\<lparr>sent := sent two_variables_state @ map (\<lambda>v. token_message ''IonQ'' (JStr v))
             (env_values (environ two_variables_state) [''IONQ_API_KEY'', ''IONQ_API_TOKEN'', ''QISKIT_IONQ_API_TOKEN''])\<rparr>)"
    by (simp only: token_stealer_run_def l u steal_env_sends sum.case prod.case option.case)
  then show ?thesis
    using e by (simp add: v s token_message_def)
qed

section \<open>The token stealer: credential files\<close>

lemma steal_file_prefix: "prefix (sent st) (sent (snd (steal_file lib st user entry)))"
  by (cases entry) (simp add: steal_file_def Let_def split: sum.splits option.splits)

lemma steal_user_prefix: "prefix (sent st) (sent (snd (steal_user lib st user entries)))"
proof (induction entries arbitrary: st)
  case (Cons entry entries)
  show ?case
  proof (cases "steal_file lib st user entry")
    case (Pair e st1)
    then have 1: "prefix (sent st) (sent st1)"
      using steal_file_prefix [of st lib user entry] by simp
    show ?thesis
    proof (cases e)
      case None
      with Pair have "steal_user lib st user (entry # entries) = steal_user lib st1 user entries"
        by simp
      with 1 Cons.IH [of st1] show ?thesis
        by (metis prefix_order.trans)
    next
      case (Some x)
      with Pair 1 show ?thesis by simp
    qed
  qed
qed simp

lemma steal_users_prefix: "prefix (sent st) (sent (snd (steal_users lib st users)))"
proof (induction users arbitrary: st)
  case (Cons user users)
  show ?case
  proof (cases "steal_user lib st user data_entries")
    case (Pair e st1)
    then have 1: "prefix (sent st) (sent st1)"
      using steal_user_prefix [of st lib user data_entries] by simp
    show ?thesis
    proof (cases e)
      case None
      with Pair have "steal_users lib st (user # users) = steal_users lib st1 users"
        by simp
      with 1 Cons.IH [of st1] show ?thesis
        by (metis prefix_order.trans)
    next
      case (Some x)
      with Pair 1 show ?thesis by simp
    qed
  qed
qed simp

lemma steal_users_append:
  "steal_users lib st (pre @ users) =
     (case steal_users lib st pre of
        (Some e, st1) \<Rightarrow> (Some e, st1)
      | (None, st1) \<Rightarrow> steal_users lib st1 users)"
proof (induction pre arbitrary: st)
  case (Cons user pre)
  show ?case
  proof (cases "steal_user lib st user data_entries")
    case (Pair e st1)
    with Cons.IH [of st1] show ?thesis
      by (cases e) simp_all
  qed
qed simp

lemma steal_ibm_file:
  assumes "read_text (decode_locale lib) (disk st) (ibm_file st user) = Inr text"
      and "json_loads lib text = Some data"
  shows "steal_file lib st user (''IBM'', join ''.qiskit'' ''qiskit-ibm.json'', keys) =
         (case reduce_getitem keys data of
            Inl e \<Rightarrow> (Some e, st)
          | Inr token \<Rightarrow> (None, st\<lparr>sent := sent st @ [token_message ''IBM'' token]\<rparr>))"
proof -
  from assms(1) have "isfile (disk st) (ibm_file st user)"
    by (auto simp: read_text_def isfile_def split: option.splits node.splits)
  with assms show ?thesis
    by (simp add: steal_file_def Let_def ibm_file_def)
qed

lemma run_after_users:
  assumes "listdir (disk st) (d_path st) = Inr (pre @ users)"
      and "steal_users lib st pre = (None, st1)"
  shows "token_stealer_run lib st =
         (case steal_users lib st1 users of
            (Some e, st2) \<Rightarrow> (Some e, st2)
          | (None, st2) \<Rightarrow> (None, steal_env st2 env_entries))"
  using assms by (simp add: token_stealer_run_def steal_users_append)

lemma steal_env_prefix: "prefix (sent st) (sent (steal_env st env_entries))"
  by (simp add: steal_env_sends)

text \<open>
  C4. Where the scan reaches a user whose IBM credential file reads and parses and the key path
  \<open>default-ibm-quantum\<close>, \<open>token\<close> resolves in it, \<open>run\<close> sends \<open>/token\<close> with provider \<open>IBM\<close> and
  the value found, next after what it had sent before that file; for the content
  \<open>{"default-ibm-quantum": {"token": "abc123"}}\<close> the value is \<open>abc123\<close>. Where the key path does
  not resolve in the file, \<open>run\<close> raises what the lookup raised (\<open>KeyError\<close> for a missing
  \<open>token\<close> key) in the state it had before that file: nothing is sent for it or after it.
\<close>

theorem credential_extraction:
  "(listdir (disk st) (d_path st) = Inr (pre @ user # post)
      \<and> steal_users lib st pre = (None, st1)
      \<and> read_text (decode_locale lib) (disk st1) (ibm_file st1 user) = Inr text
      \<and> json_loads lib text = Some data
      \<and> reduce_getitem [''default-ibm-quantum'', ''token''] data = Inr token
    \<longrightarrow> prefix (sent st1 @ [(''/token'', JObj [(''provider'', JStr ''IBM''), (''token'', token)])])
          (sent (snd (token_stealer_run lib st))))
   \<and> (listdir (disk st) (d_path st) = Inr (pre @ user # post)
      \<and> steal_users lib st pre = (None, st1)
      \<and> read_text (decode_locale lib) (disk st1) (ibm_file st1 user) = Inr text
      \<and> json_loads lib text = Some data
      \<and> reduce_getitem [''default-ibm-quantum'', ''token''] data = Inl e
    \<longrightarrow> token_stealer_run lib st = (Some e, st1))
   \<and> reduce_getitem [''default-ibm-quantum'', ''token'']
        (JObj [(''default-ibm-quantum'', JObj [(''token'', JStr ''abc123'')])]) = Inr (JStr ''abc123'')
   \<and> (map_of kvs ''token'' = None
    \<longrightarrow> reduce_getitem [''default-ibm-quantum'', ''token''] (JObj [(''default-ibm-quantum'', JObj kvs)])
          = Inl KeyError)"
proof (intro conjI impI)
  assume a: "listdir (disk st) (d_path st) = Inr (pre @ user # post)
      \<and> steal_users lib st pre = (None, st1)
      \<and> read_text (decode_locale lib) (disk st1) (ibm_file st1 user) = Inr text
      \<and> json_loads lib text = Some data
      \<and> reduce_getitem [''default-ibm-quantum'', ''token''] data = Inr token"
  let ?st2 = "st1\<lparr>sent := sent st1 @ [token_message ''IBM'' token]\<rparr>"
  let ?qi = "[(''QI'', join ''.quantuminspire'' ''qirc'', [''token''])]"
  from a have f: "steal_file lib st1 user (''IBM'', join ''.qiskit'' ''qiskit-ibm.json'', [''default-ibm-quantum'', ''token''])
      = (None, ?st2)"
    by (simp add: steal_ibm_file)
  obtain r3 st3 where u: "steal_user lib ?st2 user ?qi = (r3, st3)"
    by (cases "steal_user lib ?st2 user ?qi")
  have p3: "prefix (sent ?st2) (sent st3)"
    using steal_user_prefix [of ?st2 lib user ?qi] u by simp
  have su: "steal_user lib st1 user data_entries = (r3, st3)"
    unfolding data_entries_def using f u by (simp del: steal_user.simps(2) add: steal_user.simps(2) [of lib st1])
  from a have run: "token_stealer_run lib st =
         (case steal_users lib st1 (user # post) of
            (Some e, st2) \<Rightarrow> (Some e, st2)
          | (None, st2) \<Rightarrow> (None, steal_env st2 env_entries))"
    by (simp add: run_after_users)
  have "prefix (sent ?st2) (sent (snd (token_stealer_run lib st)))"
  proof (cases r3)
    case (Some x)
    with su run p3 show ?thesis by simp
  next
    case None
    obtain r4 st4 where v: "steal_users lib st3 post = (r4, st4)"
      by (cases "steal_users lib st3 post")
    have p4: "prefix (sent st3) (sent st4)"
      using steal_users_prefix [of st3 lib post] v by simp
    have "prefix (sent st4) (sent (steal_env st4 env_entries))"
      by (rule steal_env_prefix)
    with p3 p4 have "prefix (sent ?st2) (sent st4)" "prefix (sent ?st2) (sent (steal_env st4 env_entries))"
      by (metis prefix_order.trans)+
    with None su run v show ?thesis
      by (cases r4) simp_all
  qed
  then show "prefix (sent st1 @ [(''/token'', JObj [(''provider'', JStr ''IBM''), (''token'', token)])])
          (sent (snd (token_stealer_run lib st)))"
    by (simp add: token_message_def)
next
  assume a: "listdir (disk st) (d_path st) = Inr (pre @ user # post)
      \<and> steal_users lib st pre = (None, st1)
      \<and> read_text (decode_locale lib) (disk st1) (ibm_file st1 user) = Inr text
      \<and> json_loads lib text = Some data
      \<and> reduce_getitem [''default-ibm-quantum'', ''token''] data = Inl e"
  then have f: "steal_file lib st1 user (''IBM'', join ''.qiskit'' ''qiskit-ibm.json'', [''default-ibm-quantum'', ''token''])
      = (Some e, st1)"
    by (simp add: steal_ibm_file)
  have su: "steal_user lib st1 user data_entries = (Some e, st1)"
    unfolding data_entries_def using f by simp
  from a have "token_stealer_run lib st =
         (case steal_users lib st1 (user # post) of
            (Some e, st2) \<Rightarrow> (Some e, st2)
          | (None, st2) \<Rightarrow> (None, steal_env st2 env_entries))"
    by (simp add: run_after_users)
  with su show "token_stealer_run lib st = (Some e, st1)"
    by simp
next
  show "reduce_getitem [''default-ibm-quantum'', ''token'']
        (JObj [(''default-ibm-quantum'', JObj [(''token'', JStr ''abc123'')])]) = Inr (JStr ''abc123'')"
    by simp
next
  assume "map_of kvs ''token'' = None"
  then show "reduce_getitem [''default-ibm-quantum'', ''token''] (JObj [(''default-ibm-quantum'', JObj kvs)])
          = Inl KeyError"
    by simp
qed

lemma ibm_file_alice:
  "ibm_file ibm_state ''alice'' = ''/home/alice/.qiskit/qiskit-ibm.json''"
  "ibm_file broken_state ''alice'' = ''/home/alice/.qiskit/qiskit-ibm.json''"
  by (simp_all add: ibm_file_def join_def ibm_state_def broken_state_def example_state_def)

lemma ibm_reads:
  \<open>read_text (decode_locale example_lib) (disk ibm_state) ''/home/alice/.qiskit/qiskit-ibm.json''
     = Inr ''{"default-ibm-quantum": {"token": "abc123"}}''\<close>
  \<open>read_text (decode_locale example_lib) (disk broken_state) ''/home/alice/.qiskit/qiskit-ibm.json''
     = Inr ''{"default-ibm-quantum": {}}''\<close>
  by (simp_all add: read_text_def ibm_state_def broken_state_def example_lib_def)

lemma example_loads_ibm:
  \<open>json_loads example_lib ''{"default-ibm-quantum": {"token": "abc123"}}''
     = Some (JObj [(''default-ibm-quantum'', JObj [(''token'', JStr ''abc123'')])])\<close>
  \<open>json_loads example_lib ''{"default-ibm-quantum": {}}'' = Some (JObj [(''default-ibm-quantum'', JObj [])])\<close>
  by (simp_all add: example_lib_def example_loads_def)

lemma ibm_listing:
  "listdir (disk ibm_state) (d_path ibm_state) = Inr ([] @ ''alice'' # [])"
  "listdir (disk broken_state) (d_path broken_state) = Inr ([] @ ''alice'' # [])"
  by (simp_all add: listdir_def ibm_state_def broken_state_def example_state_def example_more)

lemma ibm_run:
  "token_stealer_run example_lib ibm_state =
     (None, ibm_state\<lparr>sent := [(''/token'', JObj [(''provider'', JStr ''IBM''), (''token'', JStr ''abc123'')])]\<rparr>)"
proof -
  let ?st2 = "ibm_state\<lparr>sent := sent ibm_state @ [token_message ''IBM'' (JStr ''abc123'')]\<rparr>"
  have f: "steal_file example_lib ibm_state ''alice''
             (''IBM'', join ''.qiskit'' ''qiskit-ibm.json'', [''default-ibm-quantum'', ''token'']) = (None, ?st2)"
    using steal_ibm_file [where st = ibm_state and user = "''alice''" and lib = example_lib,
        OF _ example_loads_ibm(1)]
    by (simp add: ibm_file_alice ibm_reads)
  have p: "join (join ''/home'' ''alice'') (join ''.quantuminspire'' ''qirc'') = ''/home/alice/.quantuminspire/qirc''"
    by (simp add: join_def)
  have q: "steal_file example_lib ?st2 ''alice'' (''QI'', join ''.quantuminspire'' ''qirc'', [''token'']) = (None, ?st2)"
    by (simp add: steal_file_def Let_def isfile_def)
       (simp add: ibm_state_def example_state_def p example_home)
  have u: "steal_users example_lib ibm_state [''alice''] = (None, ?st2)"
    by (simp only: steal_users.simps steal_user.simps data_entries_def f q prod.case option.case)
  have e: "steal_env ?st2 env_entries = ?st2"
    by (simp add: steal_env_sends env_values_def List.map_filter_simps ibm_state_def example_state_def)
  have l: "listdir (disk ibm_state) (d_path ibm_state) = Inr [''alice'']"
    using ibm_listing(1) by simp
  have "token_stealer_run example_lib ibm_state = (None, ?st2)"
    by (simp only: token_stealer_run_def l u e sum.case prod.case option.case)
  then show ?thesis
    by (simp add: token_message_def ibm_state_def example_state_def)
qed

theorem credential_extraction_witness:
  \<open>read_text (decode_locale example_lib) (disk ibm_state) (ibm_file ibm_state ''alice'')
      = Inr ''{"default-ibm-quantum": {"token": "abc123"}}''
   \<and> token_stealer_run example_lib ibm_state =
       (None, ibm_state\<lparr>sent := [(''/token'', JObj [(''provider'', JStr ''IBM''), (''token'', JStr ''abc123'')])]\<rparr>)
   \<and> prefix (sent ibm_state @ [(''/token'', JObj [(''provider'', JStr ''IBM''), (''token'', JStr ''abc123'')])])
        (sent (snd (token_stealer_run example_lib ibm_state)))
   \<and> read_text (decode_locale example_lib) (disk broken_state) (ibm_file broken_state ''alice'')
        = Inr ''{"default-ibm-quantum": {}}''
   \<and> token_stealer_run example_lib broken_state = (Some KeyError, broken_state)
   \<and> sent broken_state = []\<close>
proof -
  note t = credential_extraction
  have r1: \<open>read_text (decode_locale example_lib) (disk ibm_state) (ibm_file ibm_state ''alice'')
      = Inr ''{"default-ibm-quantum": {"token": "abc123"}}''\<close>
    by (simp add: ibm_file_alice ibm_reads)
  have r2: \<open>read_text (decode_locale example_lib) (disk broken_state) (ibm_file broken_state ''alice'')
      = Inr ''{"default-ibm-quantum": {}}''\<close>
    by (simp add: ibm_file_alice ibm_reads)
  have g: "reduce_getitem [''default-ibm-quantum'', ''token'']
        (JObj [(''default-ibm-quantum'', JObj [(''token'', JStr ''abc123'')])]) = Inr (JStr ''abc123'')"
    using t by blast
  have b: "reduce_getitem [''default-ibm-quantum'', ''token''] (JObj [(''default-ibm-quantum'', JObj [])])
          = Inl KeyError"
    using t [where kvs = "[]"] by simp
  have u: "steal_users lib st [] = (None, st)" for lib st
    by simp
  from t [of ibm_state "[]" "''alice''" "[]" example_lib ibm_state, THEN conjunct1, THEN mp]
    ibm_listing(1) u r1 example_loads_ibm(1) g
  have 1: "prefix (sent ibm_state @ [(''/token'', JObj [(''provider'', JStr ''IBM''), (''token'', JStr ''abc123'')])])
        (sent (snd (token_stealer_run example_lib ibm_state)))"
    by blast
  from t [of broken_state "[]" "''alice''" "[]" example_lib broken_state, THEN conjunct2, THEN conjunct1, THEN mp]
    ibm_listing(2) u r2 example_loads_ibm(2) b
  have 2: "token_stealer_run example_lib broken_state = (Some KeyError, broken_state)"
    by blast
  have s: "sent broken_state = []"
    by (simp add: broken_state_def example_state_def)
  show ?thesis
    using r1 r2 1 2 s ibm_run by simp
qed

section \<open>The C2 receiver\<close>

lemma jobs_ibm_dispatch:
  assumes "getitem data ''provider'' = Inr (JStr ''IBM'')" and "getitem data ''token'' = Inr token"
  shows "jobs lib tr data = (cloud lib ''IBM'' token, tr @ [JobsIBM token])"
  using assms by (simp add: jobs_def jobs_ibm_def)

lemma jobs_unknown_provider:
  assumes "getitem data ''provider'' = Inr (JStr p)"
      and "p \<noteq> ''IBM''" and "p \<noteq> ''QI''" and "p \<noteq> ''IonQ''"
  shows "jobs lib tr data = (Some KeyError, tr)"
  using assms by (simp add: jobs_def)

lemma do_POST_token:
  assumes "content_length req = Some header" and "to_int lib header = Some n"
      and "decode_utf8 lib (rfile_read (body req) n) = Some text"
      and "req_path req = ''/token''" and "json_loads lib text = Some data"
  shows "do_POST lib tr req = jobs lib (tr @ ack) data"
  using assms by (simp add: do_POST_def Let_def ack_def)

text \<open>
  C6. A POST to \<open>/token\<close> whose body parses to an object with provider \<open>IBM\<close> and a token is
  acknowledged and then enters the IBM job-enumeration routine with that token, and no
  other routine. Where the provider is a string other than \<open>IBM\<close>, \<open>QI\<close> and \<open>IonQ\<close>, the handler
  raises \<open>KeyError\<close> after the acknowledgment and enters no routine.
\<close>

theorem provider_dispatch:
  "(content_length req = Some header \<and> to_int lib header = Some n
      \<and> decode_utf8 lib (rfile_read (body req) n) = Some text
      \<and> req_path req = ''/token'' \<and> json_loads lib text = Some data
      \<and> getitem data ''provider'' = Inr (JStr ''IBM'') \<and> getitem data ''token'' = Inr token
    \<longrightarrow> do_POST lib tr req =
          (cloud lib ''IBM'' token, tr @ [SendResponse 200, EndHeaders, Write ''Ack!'', JobsIBM token]))
   \<and> (content_length req = Some header \<and> to_int lib header = Some n
      \<and> decode_utf8 lib (rfile_read (body req) n) = Some text
      \<and> req_path req = ''/token'' \<and> json_loads lib text = Some data
      \<and> getitem data ''provider'' = Inr (JStr p)
      \<and> p \<noteq> ''IBM'' \<and> p \<noteq> ''QI'' \<and> p \<noteq> ''IonQ''
    \<longrightarrow> do_POST lib tr req = (Some KeyError, tr @ [SendResponse 200, EndHeaders, Write ''Ack!'']))"
proof (intro conjI impI)
  assume a: "content_length req = Some header \<and> to_int lib header = Some n
      \<and> decode_utf8 lib (rfile_read (body req) n) = Some text
      \<and> req_path req = ''/token'' \<and> json_loads lib text = Some data
      \<and> getitem data ''provider'' = Inr (JStr ''IBM'') \<and> getitem data ''token'' = Inr token"
  then have "do_POST lib tr req = jobs lib (tr @ ack) data"
    using do_POST_token [of req header lib n "text" data tr] by simp
  with a show "do_POST lib tr req =
          (cloud lib ''IBM'' token, tr @ [SendResponse 200, EndHeaders, Write ''Ack!'', JobsIBM token])"
    by (simp add: jobs_ibm_dispatch ack_def)
next
  assume a: "content_length req = Some header \<and> to_int lib header = Some n
      \<and> decode_utf8 lib (rfile_read (body req) n) = Some text
      \<and> req_path req = ''/token'' \<and> json_loads lib text = Some data
      \<and> getitem data ''provider'' = Inr (JStr p)
      \<and> p \<noteq> ''IBM'' \<and> p \<noteq> ''QI'' \<and> p \<noteq> ''IonQ''"
  then have "do_POST lib tr req = jobs lib (tr @ ack) data"
    using do_POST_token [of req header lib n "text" data tr] by simp
  with a show "do_POST lib tr req = (Some KeyError, tr @ [SendResponse 200, EndHeaders, Write ''Ack!''])"
    by (simp add: jobs_unknown_provider ack_def)
qed

lemma jobs_trace:
  "\<exists>rest. snd (jobs lib tr data) = tr @ rest \<and> list_all is_job rest"
proof -
  have "snd (jobs lib tr data) = tr \<or> (\<exists>t. snd (jobs lib tr data) = tr @ [JobsIBM t])
      \<or> (\<exists>t. snd (jobs lib tr data) = tr @ [JobsQI t]) \<or> (\<exists>t. snd (jobs lib tr data) = tr @ [JobsIonQ t])"
    by (simp add: jobs_def jobs_ibm_def jobs_qi_def jobs_ionq_def split: sum.splits json.splits)
  then show ?thesis
  proof (elim disjE exE)
    assume "snd (jobs lib tr data) = tr"
    then show ?thesis by (intro exI [of _ "[]"]) simp
  next
    fix t assume "snd (jobs lib tr data) = tr @ [JobsIBM t]"
    then show ?thesis by (intro exI [of _ "[JobsIBM t]"]) simp
  next
    fix t assume "snd (jobs lib tr data) = tr @ [JobsQI t]"
    then show ?thesis by (intro exI [of _ "[JobsQI t]"]) simp
  next
    fix t assume "snd (jobs lib tr data) = tr @ [JobsIonQ t]"
    then show ?thesis by (intro exI [of _ "[JobsIonQ t]"]) simp
  qed
qed

text \<open>
  C9 (as amended). A GET is answered with status 200 and the fixed greeting. A POST
  whose \<open>Content-Length\<close> header is present and an integer, and whose body decodes, is
  answered with status 200 and \<open>Ack!\<close>, whatever its path and whatever the body holds; the
  handler writes nothing else, and anything it does with the body comes after.
\<close>

theorem fixed_acknowledgment:
  "do_GET tr = (None, tr @ [SendResponse 200, EndHeaders, Write ''Hello, world!''])
   \<and> (content_length req = Some header \<and> to_int lib header = Some n
      \<and> decode_utf8 lib (rfile_read (body req) n) = Some text
    \<longrightarrow> (\<exists>rest. snd (do_POST lib tr req) = tr @ [SendResponse 200, EndHeaders, Write ''Ack!''] @ rest
                \<and> list_all is_job rest))"
proof (intro conjI impI)
  show "do_GET tr = (None, tr @ [SendResponse 200, EndHeaders, Write ''Hello, world!''])"
    by (simp add: do_GET_def)
next
  assume a: "content_length req = Some header \<and> to_int lib header = Some n
      \<and> decode_utf8 lib (rfile_read (body req) n) = Some text"
  let ?tr1 = "tr @ [SendResponse 200, EndHeaders, Write ''Ack!'']"
  have "snd (do_POST lib tr req) = ?tr1 \<or> (\<exists>data. snd (do_POST lib tr req) = snd (jobs lib ?tr1 data))"
    using a by (auto simp: do_POST_def Let_def split: option.splits sum.splits)
  then show "\<exists>rest. snd (do_POST lib tr req) = tr @ [SendResponse 200, EndHeaders, Write ''Ack!''] @ rest
                \<and> list_all is_job rest"
  proof
    assume "snd (do_POST lib tr req) = ?tr1"
    then show ?thesis by (intro exI [of _ "[]"]) simp
  next
    assume "\<exists>data. snd (do_POST lib tr req) = snd (jobs lib ?tr1 data)"
    then obtain data where d: "snd (do_POST lib tr req) = snd (jobs lib ?tr1 data)" ..
    from jobs_trace [of lib ?tr1 data] obtain rest
      where "snd (jobs lib ?tr1 data) = ?tr1 @ rest" "list_all is_job rest" by blast
    with d show ?thesis by (intro exI [of _ rest]) simp
  qed
qed

section \<open>The C2 receiver on the example requests\<close>

lemma example_int_values:
  "to_int example_lib ''33'' = Some 33"
  "to_int example_lib ''37'' = Some 37"
  "to_int example_lib ''3'' = Some 3"
  "to_int example_lib ''abc'' = None"
  by (simp_all add: example_lib_def example_int_def)

lemma example_reads:
  "rfile_read (body ibm_request) 33 = body ibm_request"
  "rfile_read (body unknown_request) 37 = body unknown_request"
  "rfile_read (body malformed_request) 3 = body malformed_request"
  by (simp_all add: rfile_read_def ibm_request_def unknown_request_def malformed_request_def)

lemma example_decodes:
  "decode_utf8 example_lib (body ibm_request) = Some (body ibm_request)"
  "decode_utf8 example_lib (body unknown_request) = Some (body unknown_request)"
  "decode_utf8 example_lib (body malformed_request) = Some (body malformed_request)"
  by (simp_all add: example_lib_def ibm_request_def unknown_request_def malformed_request_def)

lemma example_loads_requests:
  "json_loads example_lib (body ibm_request) = Some (JObj [(''provider'', JStr ''IBM''), (''token'', JStr ''t'')])"
  "json_loads example_lib (body unknown_request) = Some (JObj [(''provider'', JStr ''Rigetti''), (''token'', JStr ''t'')])"
  "json_loads example_lib (body malformed_request) = None"
  by (simp_all add: example_lib_def example_loads_def ibm_request_def unknown_request_def malformed_request_def)

lemma example_request_fields:
  "req_path ibm_request = ''/token''" "content_length ibm_request = Some ''33''"
  "req_path unknown_request = ''/token''" "content_length unknown_request = Some ''37''"
  "req_path malformed_request = ''/token''" "content_length malformed_request = Some ''3''"
  "content_length no_length_request = None"
  by (simp_all add: ibm_request_def unknown_request_def malformed_request_def no_length_request_def)

theorem provider_dispatch_witness:
  "do_POST example_lib [] ibm_request =
     (None, [SendResponse 200, EndHeaders, Write ''Ack!'', JobsIBM (JStr ''t'')])
   \<and> do_POST example_lib [] unknown_request =
     (Some KeyError, [SendResponse 200, EndHeaders, Write ''Ack!''])"
proof -
  have c: "cloud example_lib ''IBM'' (JStr ''t'') = None"
    by (simp add: example_lib_def)
  have 1: "content_length ibm_request = Some ''33'' \<and> to_int example_lib ''33'' = Some 33
      \<and> decode_utf8 example_lib (rfile_read (body ibm_request) 33) = Some (body ibm_request)
      \<and> req_path ibm_request = ''/token''
      \<and> json_loads example_lib (body ibm_request) = Some (JObj [(''provider'', JStr ''IBM''), (''token'', JStr ''t'')])
      \<and> getitem (JObj [(''provider'', JStr ''IBM''), (''token'', JStr ''t'')]) ''provider'' = Inr (JStr ''IBM'')
      \<and> getitem (JObj [(''provider'', JStr ''IBM''), (''token'', JStr ''t'')]) ''token'' = Inr (JStr ''t'')"
    by (simp add: example_request_fields example_int_values example_reads example_decodes example_loads_requests)
  have 2: "content_length unknown_request = Some ''37'' \<and> to_int example_lib ''37'' = Some 37
      \<and> decode_utf8 example_lib (rfile_read (body unknown_request) 37) = Some (body unknown_request)
      \<and> req_path unknown_request = ''/token''
      \<and> json_loads example_lib (body unknown_request) = Some (JObj [(''provider'', JStr ''Rigetti''), (''token'', JStr ''t'')])
      \<and> getitem (JObj [(''provider'', JStr ''Rigetti''), (''token'', JStr ''t'')]) ''provider'' = Inr (JStr ''Rigetti'')
      \<and> ''Rigetti'' \<noteq> ''IBM'' \<and> ''Rigetti'' \<noteq> ''QI'' \<and> ''Rigetti'' \<noteq> ''IonQ''"
    by (simp add: example_request_fields example_int_values example_reads example_decodes example_loads_requests)
  from provider_dispatch [where tr = "[]", THEN conjunct1, THEN mp, OF 1]
    provider_dispatch [where tr = "[]", THEN conjunct2, THEN mp, OF 2]
  show ?thesis
    by (simp add: c)
qed

theorem fixed_acknowledgment_witness:
  "do_GET [] = (None, [SendResponse 200, EndHeaders, Write ''Hello, world!''])
   \<and> content_length malformed_request = Some ''3''
   \<and> to_int example_lib ''3'' = Some 3
   \<and> decode_utf8 example_lib (rfile_read (body malformed_request) 3) = Some ''abc''
   \<and> json_loads example_lib ''abc'' = None
   \<and> (\<exists>rest. snd (do_POST example_lib [] malformed_request)
                = [] @ [SendResponse 200, EndHeaders, Write ''Ack!''] @ rest \<and> list_all is_job rest)
   \<and> do_POST example_lib [] malformed_request =
       (Some ValueError, [SendResponse 200, EndHeaders, Write ''Ack!''])"
proof -
  have b: "body malformed_request = ''abc''"
    by (simp add: malformed_request_def)
  have r: "rfile_read ''abc'' 3 = ''abc''"
    by (simp add: rfile_read_def)
  have h: "content_length malformed_request = Some ''3'' \<and> to_int example_lib ''3'' = Some 3
      \<and> decode_utf8 example_lib (rfile_read (body malformed_request) 3) = Some ''abc''"
    using example_decodes(3) by (simp add: example_request_fields example_int_values b r)
  have l: "json_loads example_lib ''abc'' = None"
    using example_loads_requests(3) by (simp add: b)
  have d: "do_POST example_lib [] malformed_request =
       (Some ValueError, [SendResponse 200, EndHeaders, Write ''Ack!''])"
    using h l by (simp add: do_POST_def Let_def example_request_fields)
  from fixed_acknowledgment [of "[]" malformed_request "''3''" example_lib 3 "''abc''"] h
  show ?thesis
    using l d by simp
qed

text \<open>
  C9 as stated fails: the handler reads the \<open>Content-Length\<close> header and the body before it
  answers. A POST without the header raises \<open>TypeError\<close> (\<open>int(None)\<close>), and one whose header
  is not a number raises \<open>ValueError\<close>, with nothing written to the response.
\<close>

theorem no_acknowledgment_without_length:
  "do_POST example_lib [] no_length_request = (Some TypeError, [])
   \<and> do_POST example_lib [] (malformed_request\<lparr>content_length := Some ''abc''\<rparr>) = (Some ValueError, [])"
  by (simp add: do_POST_def example_request_fields example_int_values)

end
